theory Spec2Isabelle
  imports Main "HOL-Library.Word"
begin

section \<open>The icon generator \<^verbatim>\<open>build-icons.py\<close>\<close>

text \<open>
  The script is a straight line of calls into the operating system, into the image
  library and into \<^verbatim>\<open>curl\<close>, with a \<^verbatim>\<open>print\<close> after most of them. The model threads an
  explicit world (file system, what standard output has taken, and a log of the external
  calls made) through the statements of the script. Every statement that can raise has
  the exception as a branch. What the environment decides (whether the imports load,
  whether a directory can be made, whether standard output takes a line, what the image
  library and \<^verbatim>\<open>curl\<close> compute) is a parameter of the model, the record \<open>env\<close>, and every
  theorem holds for every \<open>env\<close>.
\<close>

subsection \<open>Data\<close>

type_synonym path = string
type_synonym bytes = "8 word list"

text \<open>
  The file system of the model knows regular files, with their content, and directories.
  Whatever else may sit at a name (a FIFO, a dangling link) is not a node; it shows where
  it matters to the script, in the error of \<^verbatim>\<open>mkdir\<close>.
\<close>

datatype node = File bytes | Dir

text \<open>
  The exceptions the statements of the script raise. All of them are instances of
  \<^verbatim>\<open>Exception\<close>. \<open>LibError\<close> is an error of the image library, with its text.
\<close>

datatype exn =
    FileExistsError path
  | FileNotFoundError path
  | IsADirectoryError path
  | PermissionError path
  | ModuleNotFoundError string
  | UnicodeEncodeError
  | BrokenPipeError
  | LibError string

text \<open>The resampling filters of \<^verbatim>\<open>Image.Resampling\<close>.\<close>

datatype resampling = NEAREST | BOX | BILINEAR | HAMMING | BICUBIC | LANCZOS

text \<open>
  One constructor for each \<^verbatim>\<open>print\<close> of the script, with the values its f-string
  interpolates: lines 26, 29, 35, 39, 41, 50 and 52. The lines of 26, 41 and 50 start with
  a check mark, those of 29, 35, 39 and 52 with a cross mark: no line is plain ASCII.
\<close>

datatype msg =
    MsgCreated path int
  | MsgFailed path exn
  | MsgNotFound path
  | MsgDownloadFailed
  | MsgDownloaded path
  | MsgAllCreated
  | MsgSomeFailed

text \<open>The external calls, logged in the order in which the script makes them.\<close>

datatype call =
    CallMakedirs path
  | CallExists path
  | CallRun "string list"
  | CallOpen path
  | CallResize int int resampling
  | CallSave path string

text \<open>
  What \<^verbatim>\<open>subprocess.run\<close> does with the \<^verbatim>\<open>curl\<close> command line: it raises (the program cannot
  be started), or it returns the exit status of \<^verbatim>\<open>curl\<close>. By then \<^verbatim>\<open>curl\<close> has had an HTTP
  answer with its status, or none, and has left some content in its output file, or none.
\<close>

datatype run_result = RunRaised exn | Completed int "nat option" "bytes option"

text \<open>
  The environment of one run.
  \<^item> \<open>import_error\<close>: the exception of lines 7 and 8, if the imports do not load.
  \<^item> \<open>mkdir_error\<close>: the exception of \<^verbatim>\<open>mkdir\<close> on a name that the file system of the model
    does not hold: no permission, a read-only file system, or something at the name that
    is neither a regular file nor a directory.
  \<^item> \<open>print_error\<close>: the exception of \<^verbatim>\<open>print\<close> on a line, if standard output cannot encode
    it or cannot be written.
  \<^item> \<open>flush_fails\<close>: the interpreter cannot flush what standard output has buffered when it
    shuts down.
  \<^item> \<open>traceback_fails\<close>: standard error cannot take the traceback of an exception that
    nothing catches.
  \<^item> \<open>pil_open\<close>, \<open>pil_resize\<close>, \<open>pil_save\<close>: the image library. Whether a save succeeds
    is the environment's to decide: it stands for all that can go wrong at the target. A
    save that raises has either not opened its target, or has opened it and left some
    bytes in it; \<open>save_unlinks\<close> says whether a failing save removes a target that it had
    created. In a run of the script every save comes after line 11 has returned, when
    \<^verbatim>\<open>dist\<close> is a directory.
  \<^item> \<open>curl\<close>: the outcome of the command line.
\<close>

record 'img env =
  import_error :: "exn option"
  mkdir_error :: "path \<Rightarrow> exn option"
  print_error :: "msg \<Rightarrow> exn option"
  flush_fails :: bool
  traceback_fails :: bool
  pil_open :: "bytes \<Rightarrow> exn + 'img"
  pil_resize :: "'img \<Rightarrow> int \<times> int \<Rightarrow> resampling \<Rightarrow> exn + 'img"
  pil_save :: "'img \<Rightarrow> path \<Rightarrow> string \<Rightarrow> (exn \<times> bytes option) + bytes"
  save_unlinks :: bool
  curl :: "string list \<Rightarrow> run_result"

record world =
  fs :: "path \<rightharpoonup> node"
  stdout :: "msg list"
  calls :: "call list"

text \<open>\<^verbatim>\<open>print\<close> raises, or standard output takes the line.\<close>

definition print :: "'img env \<Rightarrow> msg \<Rightarrow> world \<Rightarrow> exn + world" where
  "print env m w =
     (case print_error env m of
        Some e \<Rightarrow> Inl e
      | None \<Rightarrow> Inr (w\<lparr>stdout := stdout w @ [m]\<rparr>))"

definition log :: "call \<Rightarrow> world \<Rightarrow> world" where
  "log c w = w\<lparr>calls := calls w @ [c]\<rparr>"

definition write_file :: "path \<Rightarrow> bytes \<Rightarrow> world \<Rightarrow> world" where
  "write_file p b w = w\<lparr>fs := (fs w)(p \<mapsto> File b)\<rparr>"

text \<open>
  The exit status of a run that ends with an exception that nothing catches. The
  interpreter writes the traceback to standard error and ends with status 1. If standard
  error cannot take the traceback, the flush of it fails when the interpreter shuts down,
  and the status is 120.
\<close>

definition uncaught :: "'img env \<Rightarrow> int" where
  "uncaught env = (if traceback_fails env then 120 else 1)"

subsection \<open>Module level: lines 7 to 13\<close>

text \<open>
  \<^verbatim>\<open>os.makedirs(name, exist_ok=True)\<close> for a single path component: it returns when a
  directory has the name, raises \<^verbatim>\<open>FileExistsError\<close> when a regular file has it, and
  otherwise calls \<^verbatim>\<open>mkdir\<close>, which makes the directory or raises.
\<close>

definition os_makedirs :: "'img env \<Rightarrow> path \<Rightarrow> world \<Rightarrow> exn + world" where
  "os_makedirs env p w =
     (case fs w p of
        Some Dir \<Rightarrow> Inr w
      | Some (File b) \<Rightarrow> Inl (FileExistsError p)
      | None \<Rightarrow>
          (case mkdir_error env p of
             Some e \<Rightarrow> Inl e
           | None \<Rightarrow> Inr (w\<lparr>fs := (fs w)(p \<mapsto> Dir)\<rparr>)))"

definition os_path_exists :: "world \<Rightarrow> path \<Rightarrow> bool" where
  "os_path_exists w p = (fs w p \<noteq> None)"

definition FAVICON_SOURCE :: path where
  "FAVICON_SOURCE = ''anava-favicon-source.png''"

subsection \<open>\<^verbatim>\<open>create_icon_from_favicon\<close>: lines 15 to 30\<close>

text \<open>
  \<^verbatim>\<open>Image.open\<close> reads the file at the path and hands its content to the library.
\<close>

definition Image_open :: "'img env \<Rightarrow> world \<Rightarrow> path \<Rightarrow> exn + 'img" where
  "Image_open env w p =
     (case fs w p of
        None \<Rightarrow> Inl (FileNotFoundError p)
      | Some Dir \<Rightarrow> Inl (IsADirectoryError p)
      | Some (File b) \<Rightarrow> pil_open env b)"

text \<open>
  What a save that raised leaves at its target. If it had not opened the target, nothing
  changes. If it had, a target that was a file before holds the bytes written so far; a
  target that the save created holds them too, unless the save removes what it created.
\<close>

definition save_leaves :: "'img env \<Rightarrow> path \<Rightarrow> bytes option \<Rightarrow> (path \<rightharpoonup> node) \<Rightarrow> (path \<rightharpoonup> node)" where
  "save_leaves env p left m =
     (case left of
        None \<Rightarrow> m
      | Some partial \<Rightarrow> if m p = None \<and> save_unlinks env then m else m(p \<mapsto> File partial))"

text \<open>
  Lines 17 to 27, the body of the \<^verbatim>\<open>try\<close>: open, resize, save, the print of line 26 and
  \<^verbatim>\<open>return True\<close>, in this order. \<open>Inl\<close> is the exception of the first statement that
  raises, with the world in which it is raised.
\<close>

definition create_icon_try ::
  "'img env \<Rightarrow> int \<Rightarrow> path \<Rightarrow> world \<Rightarrow> (exn \<times> world) + (bool \<times> world)" where
  "create_icon_try env size' filename w =
     (let w1 = log (CallOpen FAVICON_SOURCE) w in
      case Image_open env w1 FAVICON_SOURCE of
        Inl e \<Rightarrow> Inl (e, w1)
      | Inr img \<Rightarrow>
          (let w2 = log (CallResize size' size' LANCZOS) w1 in
           case pil_resize env img (size', size') LANCZOS of
             Inl e \<Rightarrow> Inl (e, w2)
           | Inr img_resized \<Rightarrow>
               (let w3 = log (CallSave filename ''PNG'') w2 in
                case pil_save env img_resized filename ''PNG'' of
                  Inl (e, left) \<Rightarrow> Inl (e, w3\<lparr>fs := save_leaves env filename left (fs w3)\<rparr>)
                | Inr out \<Rightarrow>
                    (let w4 = write_file filename out w3 in
                     case print env (MsgCreated filename size') w4 of
                       Inl e \<Rightarrow> Inl (e, w4)
                     | Inr w5 \<Rightarrow> Inr (True, w5)))))"

text \<open>
  The handler of line 28 takes every exception of the body, prints line 29 and returns
  \<^verbatim>\<open>False\<close>. The print of line 29 is inside no \<^verbatim>\<open>try\<close>: when it raises, the exception leaves
  the function. The result is the exception that leaves, or the value returned.
\<close>

definition create_icon_from_favicon ::
  "'img env \<Rightarrow> int \<Rightarrow> path \<Rightarrow> world \<Rightarrow> (exn + bool) \<times> world" where
  "create_icon_from_favicon env size' filename w =
     (case create_icon_try env size' filename w of
        Inr (r, w') \<Rightarrow> (Inr r, w')
      | Inl (e, w') \<Rightarrow>
          (case print env (MsgFailed filename e) w' of
             Inl e' \<Rightarrow> (Inl e', w')
           | Inr w'' \<Rightarrow> (Inr False, w'')))"

subsection \<open>The \<^verbatim>\<open>__main__\<close> block: lines 32 to 53\<close>

definition curl_argv :: "string list" where
  "curl_argv = [''curl'', ''-s'', ''https://anava.ai/favicon.ico'', ''-o'', FAVICON_SOURCE]"

text \<open>
  Lines 34 to 41. \<open>Inl\<close> is the end of the process with its exit status: \<^verbatim>\<open>exit(1)\<close> of
  line 40, or an exception of a \<^verbatim>\<open>print\<close> or of \<^verbatim>\<open>subprocess.run\<close>, which nothing catches
  and which ends the interpreter with status \<open>uncaught\<close>. \<open>Inr\<close> is the world in which line 44
  starts. The command line has no \<^verbatim>\<open>-f\<close>: line 38 sees the exit status of \<^verbatim>\<open>curl\<close> only.
\<close>

definition check_source :: "'img env \<Rightarrow> world \<Rightarrow> (int \<times> world) + world" where
  "check_source env w =
     (let w0 = log (CallExists FAVICON_SOURCE) w in
      if \<not> os_path_exists w0 FAVICON_SOURCE then
        (case print env (MsgNotFound FAVICON_SOURCE) w0 of
           Inl e \<Rightarrow> Inl (uncaught env, w0)
         | Inr w1 \<Rightarrow>
             (let w2 = log (CallRun curl_argv) w1 in
              case curl env curl_argv of
                RunRaised e \<Rightarrow> Inl (uncaught env, w2)
              | Completed returncode http out \<Rightarrow>
                  (let w3 = (case out of None \<Rightarrow> w2 | Some b \<Rightarrow> write_file FAVICON_SOURCE b w2) in
                   if returncode \<noteq> 0 then
                     (case print env MsgDownloadFailed w3 of
                        Inl e \<Rightarrow> Inl (uncaught env, w3)
                      | Inr w4 \<Rightarrow> Inl (1, w4))
                   else
                     (case print env (MsgDownloaded FAVICON_SOURCE) w3 of
                        Inl e \<Rightarrow> Inl (uncaught env, w3)
                      | Inr w4 \<Rightarrow> Inr w4))))
      else Inr w0)"

text \<open>
  Lines 44 to 47. In \<^verbatim>\<open>create_icon_from_favicon(...) and success\<close> the call is the left
  operand, so it is always evaluated. An exception that leaves a call ends the sequence.
\<close>

definition create_icons :: "'img env \<Rightarrow> world \<Rightarrow> (exn + bool) \<times> world" where
  "create_icons env w =
     (let success = True in
      case create_icon_from_favicon env 16 ''dist/icon16.png'' w of
        (Inl e, w1) \<Rightarrow> (Inl e, w1)
      | (Inr r16, w1) \<Rightarrow>
          (let success = (r16 \<and> success) in
           case create_icon_from_favicon env 48 ''dist/icon48.png'' w1 of
             (Inl e, w2) \<Rightarrow> (Inl e, w2)
           | (Inr r48, w2) \<Rightarrow>
               (let success = (r48 \<and> success) in
                case create_icon_from_favicon env 128 ''dist/icon128.png'' w2 of
                  (Inl e, w3) \<Rightarrow> (Inl e, w3)
                | (Inr r128, w3) \<Rightarrow>
                    (let success = (r128 \<and> success) in (Inr success, w3)))))"

text \<open>
  Lines 49 to 53, and the end of the block when an exception has left lines 44 to 47:
  status \<open>uncaught\<close> for an exception that nothing caught, status 1 for \<^verbatim>\<open>exit(1)\<close>, status 0
  for falling off the end of the script.
\<close>

definition report :: "'img env \<Rightarrow> (exn + bool) \<times> world \<Rightarrow> int \<times> world" where
  "report env r =
     (case r of
        (Inl e, w) \<Rightarrow> (uncaught env, w)
      | (Inr success, w) \<Rightarrow>
          if success then
            (case print env MsgAllCreated w of
               Inl e \<Rightarrow> (uncaught env, w)
             | Inr w' \<Rightarrow> (0, w'))
          else
            (case print env MsgSomeFailed w of
               Inl e \<Rightarrow> (uncaught env, w)
             | Inr w' \<Rightarrow> (1, w')))"

definition main_block :: "'img env \<Rightarrow> world \<Rightarrow> int \<times> world" where
  "main_block env w =
     (case check_source env w of
        Inl halted \<Rightarrow> halted
      | Inr w1 \<Rightarrow> report env (create_icons env w1))"

subsection \<open>The whole script\<close>

text \<open>
  When the interpreter shuts down it flushes standard output. If that fails, the exit
  status is 120, whatever the script had decided. Nothing is flushed when the run has
  printed nothing.
\<close>

definition finalize :: "'img env \<Rightarrow> world \<Rightarrow> int \<times> world \<Rightarrow> int \<times> world" where
  "finalize env w0 r =
     (if flush_fails env \<and> stdout (snd r) \<noteq> stdout w0 then (120, snd r) else r)"

text \<open>
  The imports run first, then line 11. An exception of either is not caught: the
  interpreter ends with status \<open>uncaught\<close> and the \<^verbatim>\<open>__main__\<close> block is never entered.
\<close>

definition script :: "'img env \<Rightarrow> world \<Rightarrow> int \<times> world" where
  "script env w =
     finalize env w
       (case import_error env of
          Some e \<Rightarrow> (uncaught env, w)
        | None \<Rightarrow>
            (let w0 = log (CallMakedirs ''dist'') w in
             case os_makedirs env ''dist'' w0 of
               Inl e \<Rightarrow> (uncaught env, w0)
             | Inr w1 \<Rightarrow> main_block env w1))"

subsection \<open>One call of \<^verbatim>\<open>create_icon_from_favicon\<close> as a function of the source\<close>

text \<open>
  A call reads nothing of the world but the node at \<open>FAVICON_SOURCE\<close>. For a given node,
  \<open>icon_bytes\<close> is the result of open, resize and save: the bytes saved, or the first
  exception with what the save left; \<open>icon_raised\<close> is the exception that reaches the
  handler, if any (the print of line 26 can be the one to raise); \<open>icon_result\<close> is what the
  call returns or lets out; \<open>icon_lines\<close> is what it prints, \<open>icon_calls\<close> the calls it makes
  and \<open>icon_file\<close> its effect on the file system. Lemma \<open>create_icon_eq\<close> below proves that
  \<open>create_icon_from_favicon\<close> is exactly these.
\<close>

definition icon_bytes ::
  "'img env \<Rightarrow> node option \<Rightarrow> int \<Rightarrow> path \<Rightarrow> (exn \<times> bytes option) + bytes" where
  "icon_bytes env src size' filename =
     (case src of
        None \<Rightarrow> Inl (FileNotFoundError FAVICON_SOURCE, None)
      | Some Dir \<Rightarrow> Inl (IsADirectoryError FAVICON_SOURCE, None)
      | Some (File b) \<Rightarrow>
          (case pil_open env b of
             Inl e \<Rightarrow> Inl (e, None)
           | Inr img \<Rightarrow>
               (case pil_resize env img (size', size') LANCZOS of
                  Inl e \<Rightarrow> Inl (e, None)
                | Inr img_resized \<Rightarrow> pil_save env img_resized filename ''PNG'')))"

definition icon_calls :: "'img env \<Rightarrow> node option \<Rightarrow> int \<Rightarrow> path \<Rightarrow> call list" where
  "icon_calls env src size' filename =
     CallOpen FAVICON_SOURCE #
     (case src of
        None \<Rightarrow> []
      | Some Dir \<Rightarrow> []
      | Some (File b) \<Rightarrow>
          (case pil_open env b of
             Inl e \<Rightarrow> []
           | Inr img \<Rightarrow>
               CallResize size' size' LANCZOS #
               (case pil_resize env img (size', size') LANCZOS of
                  Inl e \<Rightarrow> []
                | Inr img_resized \<Rightarrow> [CallSave filename ''PNG''])))"

definition icon_raised :: "'img env \<Rightarrow> node option \<Rightarrow> int \<Rightarrow> path \<Rightarrow> exn option" where
  "icon_raised env src size' filename =
     (case icon_bytes env src size' filename of
        Inl (e, left) \<Rightarrow> Some e
      | Inr out \<Rightarrow> print_error env (MsgCreated filename size'))"

definition icon_result :: "'img env \<Rightarrow> node option \<Rightarrow> int \<Rightarrow> path \<Rightarrow> exn + bool" where
  "icon_result env src size' filename =
     (case icon_raised env src size' filename of
        None \<Rightarrow> Inr True
      | Some e \<Rightarrow>
          (case print_error env (MsgFailed filename e) of
             None \<Rightarrow> Inr False
           | Some e' \<Rightarrow> Inl e'))"

definition icon_lines :: "'img env \<Rightarrow> node option \<Rightarrow> int \<Rightarrow> path \<Rightarrow> msg list" where
  "icon_lines env src size' filename =
     (case icon_raised env src size' filename of
        None \<Rightarrow> [MsgCreated filename size']
      | Some e \<Rightarrow>
          (case print_error env (MsgFailed filename e) of
             None \<Rightarrow> [MsgFailed filename e]
           | Some e' \<Rightarrow> []))"

definition icon_file ::
  "'img env \<Rightarrow> node option \<Rightarrow> int \<Rightarrow> path \<Rightarrow> (path \<rightharpoonup> node) \<Rightarrow> (path \<rightharpoonup> node)" where
  "icon_file env src size' filename m =
     (case icon_bytes env src size' filename of
        Inl (e, left) \<Rightarrow> save_leaves env filename left m
      | Inr out \<Rightarrow> m(filename \<mapsto> File out))"

text \<open>
  Lines 44 to 47 as functions of the source: the calls for 48 and 128 are made only if no
  exception has left an earlier call.
\<close>

definition icons_result :: "'img env \<Rightarrow> node option \<Rightarrow> exn + bool" where
  "icons_result env src =
     (case icon_result env src 16 ''dist/icon16.png'' of
        Inl e \<Rightarrow> Inl e
      | Inr r16 \<Rightarrow>
          (case icon_result env src 48 ''dist/icon48.png'' of
             Inl e \<Rightarrow> Inl e
           | Inr r48 \<Rightarrow>
               (case icon_result env src 128 ''dist/icon128.png'' of
                  Inl e \<Rightarrow> Inl e
                | Inr r128 \<Rightarrow> Inr (r128 \<and> r48 \<and> r16))))"

definition icons_made :: "'img env \<Rightarrow> node option \<Rightarrow> (int \<times> path) list" where
  "icons_made env src =
     (16, ''dist/icon16.png'') #
     (case icon_result env src 16 ''dist/icon16.png'' of
        Inl e \<Rightarrow> []
      | Inr r16 \<Rightarrow>
          (48, ''dist/icon48.png'') #
          (case icon_result env src 48 ''dist/icon48.png'' of
             Inl e \<Rightarrow> []
           | Inr r48 \<Rightarrow> [(128, ''dist/icon128.png'')]))"

fun icons_fs ::
  "'img env \<Rightarrow> node option \<Rightarrow> (int \<times> path) list \<Rightarrow> (path \<rightharpoonup> node) \<Rightarrow> (path \<rightharpoonup> node)" where
  "icons_fs env src [] m = m"
| "icons_fs env src ((size', filename) # ts) m =
     icons_fs env src ts (icon_file env src size' filename m)"

fun icons_lines :: "'img env \<Rightarrow> node option \<Rightarrow> (int \<times> path) list \<Rightarrow> msg list" where
  "icons_lines env src [] = []"
| "icons_lines env src ((size', filename) # ts) =
     icon_lines env src size' filename @ icons_lines env src ts"

fun icons_calls :: "'img env \<Rightarrow> node option \<Rightarrow> (int \<times> path) list \<Rightarrow> call list" where
  "icons_calls env src [] = []"
| "icons_calls env src ((size', filename) # ts) =
     icon_calls env src size' filename @ icons_calls env src ts"

text \<open>
  The fetch has failed when the program could not be started, when \<^verbatim>\<open>curl\<close> ended with a
  status other than zero, when there was no HTTP answer, or when the answer was an error
  (a status of 400 or more). Line 38 tests the second of these only.
\<close>

definition fetch_failed :: "run_result \<Rightarrow> bool" where
  "fetch_failed r =
     (case r of
        RunRaised e \<Rightarrow> True
      | Completed returncode http out \<Rightarrow>
          (if returncode = 0 then (case http of None \<Rightarrow> True | Some status \<Rightarrow> 400 \<le> status)
           else True))"

definition fetch_reported_failed :: "run_result \<Rightarrow> bool" where
  "fetch_reported_failed r =
     (case r of
        RunRaised e \<Rightarrow> True
      | Completed returncode http out \<Rightarrow> (if returncode = 0 then False else True))"

subsection \<open>Concrete environments and worlds\<close>

text \<open>
  A small image library on byte strings: an image is its bytes, a file is an image when
  it starts with the byte 137 as PNG files do, resizing to a side \<open>n\<close> keeps \<open>n\<close> bytes, and
  saving puts two header bytes in front. In \<open>demo_env\<close> everything works and the download
  delivers four bytes. In \<open>offline_env\<close> \<^verbatim>\<open>curl\<close> ends with status 6 (the host does not
  resolve) and writes nothing. In \<open>env404\<close> the server answers 404 with a page, which
  \<^verbatim>\<open>curl\<close> writes to its output file before it ends with status 0. In \<open>ascii_env\<close> standard
  output cannot encode the check and cross marks, so every \<^verbatim>\<open>print\<close> of the script raises.
  In \<open>full_env\<close> standard output is a full device: the lines are buffered and the flush at
  shutdown fails. In \<open>readonly_env\<close> no directory can be made. In \<open>no_pillow_env\<close> the image
  library is not installed: line 7 raises. The worlds: nothing on disk; a valid source; a
  source that is no image; the output directory alone and with a valid source, as line
  11 leaves them; a valid source and a regular file named \<^verbatim>\<open>dist\<close>.
\<close>

definition demo_env :: "bytes env" where
  "demo_env =
     \<lparr>import_error = None,
      mkdir_error = (\<lambda>p. None),
      print_error = (\<lambda>m. None),
      flush_fails = False,
      traceback_fails = False,
      pil_open = (\<lambda>b. case b of
                        [] \<Rightarrow> Inl (LibError ''cannot identify image file'')
                      | x # xs \<Rightarrow> if x = 137 then Inr b
                                  else Inl (LibError ''cannot identify image file'')),
      pil_resize = (\<lambda>img sz f. Inr (take (nat (fst sz)) img)),
      pil_save = (\<lambda>img p fmt. Inr (137 # 80 # img)),
      save_unlinks = True,
      curl = (\<lambda>argv. Completed 0 (Some 200) (Some [137, 1, 2, 3]))\<rparr>"

definition offline_env :: "bytes env" where
  "offline_env = demo_env\<lparr>curl := (\<lambda>argv. Completed 6 None None)\<rparr>"

definition env404 :: "bytes env" where
  "env404 = demo_env\<lparr>curl := (\<lambda>argv. Completed 0 (Some 404) (Some [60, 104, 49, 62]))\<rparr>"

definition ascii_env :: "bytes env" where
  "ascii_env = demo_env\<lparr>print_error := (\<lambda>m. Some UnicodeEncodeError)\<rparr>"

definition full_env :: "bytes env" where
  "full_env = demo_env\<lparr>flush_fails := True\<rparr>"

definition readonly_env :: "bytes env" where
  "readonly_env = demo_env\<lparr>mkdir_error := (\<lambda>p. Some (PermissionError p))\<rparr>"

definition no_pillow_env :: "bytes env" where
  "no_pillow_env = demo_env\<lparr>import_error := Some (ModuleNotFoundError ''PIL'')\<rparr>"

definition empty_world :: world where
  "empty_world = \<lparr>fs = Map.empty, stdout = [], calls = []\<rparr>"

definition favicon_world :: world where
  "favicon_world = \<lparr>fs = [FAVICON_SOURCE \<mapsto> File [137, 8, 9]], stdout = [], calls = []\<rparr>"

definition corrupt_world :: world where
  "corrupt_world = \<lparr>fs = [FAVICON_SOURCE \<mapsto> File []], stdout = [], calls = []\<rparr>"

definition made_world :: world where
  "made_world = \<lparr>fs = [''dist'' \<mapsto> Dir], stdout = [], calls = []\<rparr>"

definition ready_world :: world where
  "ready_world =
     \<lparr>fs = [FAVICON_SOURCE \<mapsto> File [137, 8, 9], ''dist'' \<mapsto> Dir],
      stdout = [], calls = []\<rparr>"

definition dist_file_world :: world where
  "dist_file_world =
     \<lparr>fs = [FAVICON_SOURCE \<mapsto> File [137, 8, 9], ''dist'' \<mapsto> File []],
      stdout = [], calls = []\<rparr>"

section \<open>Properties of the model\<close>

lemmas world_ops = print_def log_def write_file_def

lemmas icon_defs = icon_bytes_def icon_calls_def icon_raised_def icon_result_def icon_lines_def
  icon_file_def

lemma save_leaves_None [simp]: "save_leaves env p None m = m"
  by (simp add: save_leaves_def)

text \<open>
  One call of \<^verbatim>\<open>create_icon_from_favicon\<close> and lines 44 to 47, written as functions of the
  node at the source path.
\<close>

lemma create_icon_eq:
  "create_icon_from_favicon env s f w =
     (icon_result env (fs w FAVICON_SOURCE) s f,
      w\<lparr>fs := icon_file env (fs w FAVICON_SOURCE) s f (fs w),
        stdout := stdout w @ icon_lines env (fs w FAVICON_SOURCE) s f,
        calls := calls w @ icon_calls env (fs w FAVICON_SOURCE) s f\<rparr>)"
  unfolding create_icon_from_favicon_def create_icon_try_def
  by (auto simp add: icon_defs Image_open_def world_ops Let_def
      split: option.split node.split sum.split prod.split)

lemma icon_file_other: "p \<noteq> f \<Longrightarrow> icon_file env src s f m p = m p"
  by (simp add: icon_file_def save_leaves_def split: sum.split prod.split option.split)

lemma create_icons_eq:
  "create_icons env w =
     (icons_result env (fs w FAVICON_SOURCE),
      w\<lparr>fs := icons_fs env (fs w FAVICON_SOURCE) (icons_made env (fs w FAVICON_SOURCE)) (fs w),
        stdout := stdout w @
          icons_lines env (fs w FAVICON_SOURCE) (icons_made env (fs w FAVICON_SOURCE)),
        calls := calls w @
          icons_calls env (fs w FAVICON_SOURCE) (icons_made env (fs w FAVICON_SOURCE))\<rparr>)"
  by (auto simp add: create_icons_def create_icon_eq Let_def icon_file_other FAVICON_SOURCE_def
      icons_result_def icons_made_def split: sum.split)

lemmas model_defs =
  script_def finalize_def main_block_def check_source_def create_icons_def report_def
  create_icon_from_favicon_def create_icon_try_def save_leaves_def Image_open_def
  os_makedirs_def os_path_exists_def print_def log_def write_file_def curl_argv_def
  FAVICON_SOURCE_def fetch_failed_def fetch_reported_failed_def uncaught_def Let_def

lemmas demo_defs =
  demo_env_def offline_env_def env404_def ascii_env_def full_env_def readonly_env_def
  no_pillow_env_def
  empty_world_def
  favicon_world_def corrupt_world_def dist_file_world_def made_world_def ready_world_def

lemma uncaught_cases: "uncaught env = 1 \<or> uncaught env = 120"
  by (simp add: uncaught_def)

lemma uncaught_nonzero [simp]: "uncaught env \<noteq> 0"
  by (simp add: uncaught_def)

text \<open>
  The statements of the script one by one: what each leaves of the world as it was.
\<close>

lemma os_makedirs_Inr:
  "os_makedirs env p w = Inr w1 \<Longrightarrow>
     fs w1 = (fs w)(p \<mapsto> Dir) \<and> stdout w1 = stdout w \<and> calls w1 = calls w"
  by (auto simp add: os_makedirs_def split: option.splits node.splits)

lemma os_makedirs_same_fs:
  "fs v = fs w \<Longrightarrow> (\<exists>e. os_makedirs env p v = Inl e) = (\<exists>e. os_makedirs env p w = Inl e)"
  by (auto simp add: os_makedirs_def split: option.splits node.splits)

lemma os_makedirs_Dir: "fs w p = Some Dir \<Longrightarrow> os_makedirs env p w = Inr w"
  by (simp add: os_makedirs_def)

lemma check_source_present:
  "fs w FAVICON_SOURCE \<noteq> None \<Longrightarrow> check_source env w = Inr (log (CallExists FAVICON_SOURCE) w)"
  by (auto simp add: check_source_def os_path_exists_def log_def Let_def)

lemma check_source_halts:
  "check_source env w = Inl r \<Longrightarrow> fst r = 1 \<or> fst r = 120"
  "check_source env w = Inl r \<Longrightarrow> fst r \<noteq> 0"
  using uncaught_cases [of env]
  by (auto simp add: check_source_def Let_def
      split: if_splits run_result.splits sum.splits)


lemma check_source_frame:
  "check_source env w = Inr w1 \<Longrightarrow> p \<noteq> FAVICON_SOURCE \<Longrightarrow> fs w1 p = fs w p"
  "check_source env w = Inl (c, w1) \<Longrightarrow> p \<noteq> FAVICON_SOURCE \<Longrightarrow> fs w1 p = fs w p"
  by (auto simp add: check_source_def world_ops Let_def
      split: if_splits run_result.splits option.splits sum.splits)

lemma check_source_calls:
  "check_source env w = Inr w1 \<Longrightarrow> \<exists>cs. calls w1 = calls w @ CallExists FAVICON_SOURCE # cs"
  "check_source env w = Inl (c, w1) \<Longrightarrow> \<exists>cs. calls w1 = calls w @ CallExists FAVICON_SOURCE # cs"
  by (auto simp add: check_source_def world_ops Let_def
      split: if_splits run_result.splits option.splits sum.splits)

lemma check_source_stdout:
  "check_source env w = Inr w1 \<Longrightarrow> \<exists>ls. stdout w1 = stdout w @ ls"
  "check_source env w = Inl (c, w1) \<Longrightarrow> \<exists>ls. stdout w1 = stdout w @ ls"
  by (auto simp add: check_source_def world_ops Let_def
      split: if_splits run_result.splits option.splits sum.splits)

lemma report_frame:
  "fs (snd (report env r)) = fs (snd r)" "calls (snd (report env r)) = calls (snd r)"
  by (auto simp add: report_def print_def split: prod.splits sum.splits option.splits)

lemma report_stdout: "\<exists>ls. stdout (snd (report env r)) = stdout (snd r) @ ls"
  by (auto simp add: report_def print_def split: prod.splits sum.splits option.splits)


lemma report_zero:
  "(fst (report env r) = 0) = (fst r = Inr True \<and> print_error env MsgAllCreated = None)"
  by (auto simp add: report_def print_def split: prod.splits sum.splits option.splits)

lemma report_zero_stdout:
  "fst (report env r) = 0 \<Longrightarrow> stdout (snd (report env r)) = stdout (snd r) @ [MsgAllCreated]"
  by (auto simp add: report_def print_def split: prod.splits sum.splits option.splits if_splits)

lemma main_block_present:
  "fs w FAVICON_SOURCE \<noteq> None \<Longrightarrow>
     main_block env w = report env (create_icons env (log (CallExists FAVICON_SOURCE) w))"
  by (simp add: main_block_def check_source_present)

lemma snd_finalize [simp]: "snd (finalize env w r) = snd r"
  by (simp add: finalize_def)

lemma fst_finalize:
  "fst (finalize env w r) = (if flush_fails env \<and> stdout (snd r) \<noteq> stdout w then 120 else fst r)"
  by (simp add: finalize_def)

text \<open>
  The three ways through the module level: an import raises, line 11 raises, or the block
  is entered.
\<close>

lemma script_no_import: "import_error env = Some e \<Longrightarrow> script env w = (uncaught env, w)"
  by (simp add: script_def finalize_def)

lemma script_not_entered:
  "import_error env = None \<Longrightarrow> os_makedirs env ''dist'' (log (CallMakedirs ''dist'') w) = Inl e \<Longrightarrow>
     script env w = (uncaught env, log (CallMakedirs ''dist'') w)"
  by (simp add: script_def finalize_def Let_def log_def)

lemma script_entered:
  "import_error env = None \<Longrightarrow> os_makedirs env ''dist'' (log (CallMakedirs ''dist'') w) = Inr w1 \<Longrightarrow>
     script env w = finalize env w (main_block env w1)"
  by (simp add: script_def Let_def)

lemma icons_fs_other: "p \<notin> snd ` set ts \<Longrightarrow> icons_fs env src ts m p = m p"
  by (induction ts arbitrary: m) (auto simp add: icon_file_other)

lemma snd_icons_made:
  "snd ` set (icons_made env src) \<subseteq> {''dist/icon16.png'', ''dist/icon48.png'', ''dist/icon128.png''}"
  by (auto simp add: icons_made_def split: sum.splits)

lemma icons_fs_frame:
  "p \<noteq> ''dist/icon16.png'' \<Longrightarrow> p \<noteq> ''dist/icon48.png'' \<Longrightarrow> p \<noteq> ''dist/icon128.png'' \<Longrightarrow>
     icons_fs env src (icons_made env src) m p = m p"
  using snd_icons_made [of env src] by (intro icons_fs_other) auto

lemma set_icon_calls:
  "set (icon_calls env src s f) \<subseteq>
     {CallOpen FAVICON_SOURCE, CallResize s s LANCZOS, CallSave f ''PNG''}"
  by (auto simp add: icon_calls_def split: option.splits node.splits sum.splits)

lemma set_icons_calls:
  "set (icons_calls env src (icons_made env src)) \<subseteq>
     {CallOpen FAVICON_SOURCE,
      CallResize 16 16 LANCZOS, CallSave ''dist/icon16.png'' ''PNG'',
      CallResize 48 48 LANCZOS, CallSave ''dist/icon48.png'' ''PNG'',
      CallResize 128 128 LANCZOS, CallSave ''dist/icon128.png'' ''PNG''}"
  using set_icon_calls [of env src 16 "''dist/icon16.png''"]
    set_icon_calls [of env src 48 "''dist/icon48.png''"]
    set_icon_calls [of env src 128 "''dist/icon128.png''"]
  by (auto simp add: icons_made_def split: sum.splits)

lemma open_in_icons_calls:
  "CallOpen FAVICON_SOURCE \<in> set (icons_calls env src (icons_made env src))"
  by (simp add: icons_made_def icon_calls_def)

text \<open>
  The run of the script when something is at the source path and line 11 returns.
\<close>

lemma script_present_entered:
  assumes present: "fs w FAVICON_SOURCE \<noteq> None"
    and imported: "import_error env = None"
    and mk: "os_makedirs env ''dist'' (log (CallMakedirs ''dist'') w) = Inr w1"
  shows "script env w =
           finalize env w (report env (create_icons env (log (CallExists FAVICON_SOURCE) w1)))"
    and "fs (snd (script env w)) =
           icons_fs env (fs w FAVICON_SOURCE) (icons_made env (fs w FAVICON_SOURCE))
             ((fs w)(''dist'' \<mapsto> Dir))"
    and "calls (snd (script env w)) =
           calls w @ [CallMakedirs ''dist'', CallExists FAVICON_SOURCE] @
           icons_calls env (fs w FAVICON_SOURCE) (icons_made env (fs w FAVICON_SOURCE))"
proof -
  from os_makedirs_Inr [OF mk] have
    w1: "fs w1 = (fs w)(''dist'' \<mapsto> Dir)" "calls w1 = calls w @ [CallMakedirs ''dist'']"
    by (simp_all add: log_def)
  then have src: "fs (log (CallExists FAVICON_SOURCE) w1) FAVICON_SOURCE = fs w FAVICON_SOURCE"
    by (simp add: log_def FAVICON_SOURCE_def)
  with present have "fs w1 FAVICON_SOURCE \<noteq> None"
    by (simp add: log_def)
  then show run: "script env w =
      finalize env w (report env (create_icons env (log (CallExists FAVICON_SOURCE) w1)))"
    by (simp add: script_entered [OF imported mk] main_block_present)
  show "fs (snd (script env w)) =
           icons_fs env (fs w FAVICON_SOURCE) (icons_made env (fs w FAVICON_SOURCE))
             ((fs w)(''dist'' \<mapsto> Dir))"
    unfolding run snd_finalize report_frame create_icons_eq src
    by (simp add: w1 log_def)
  show "calls (snd (script env w)) =
           calls w @ [CallMakedirs ''dist'', CallExists FAVICON_SOURCE] @
           icons_calls env (fs w FAVICON_SOURCE) (icons_made env (fs w FAVICON_SOURCE))"
    unfolding run snd_finalize report_frame create_icons_eq src
    by (simp add: w1 log_def)
qed

lemma script_present_calls:
  assumes present: "fs w FAVICON_SOURCE \<noteq> None"
  shows "\<exists>cs. calls (snd (script env w)) = calls w @ cs \<and>
           set cs \<subseteq> {CallMakedirs ''dist'', CallExists FAVICON_SOURCE, CallOpen FAVICON_SOURCE,
                          CallResize 16 16 LANCZOS, CallSave ''dist/icon16.png'' ''PNG'',
                          CallResize 48 48 LANCZOS, CallSave ''dist/icon48.png'' ''PNG'',
                          CallResize 128 128 LANCZOS, CallSave ''dist/icon128.png'' ''PNG''} \<and>
           (import_error env = None \<and>
            (\<exists>w1. os_makedirs env ''dist'' (log (CallMakedirs ''dist'') w) = Inr w1) \<longrightarrow>
              CallOpen FAVICON_SOURCE \<in> set cs)"
proof (cases "import_error env")
  case (Some e)
  then show ?thesis by (simp add: script_no_import)
next
  case None
  show ?thesis
  proof (cases "os_makedirs env ''dist'' (log (CallMakedirs ''dist'') w)")
    case (Inl e)
    then show ?thesis
      by (simp add: script_not_entered [OF None Inl] log_def)
  next
    case (Inr w1)
    let ?cs = "[CallMakedirs ''dist'', CallExists FAVICON_SOURCE] @
      icons_calls env (fs w FAVICON_SOURCE) (icons_made env (fs w FAVICON_SOURCE))"
    have "calls (snd (script env w)) = calls w @ ?cs"
      by (rule script_present_entered(3) [OF present None Inr])
    moreover have "set ?cs \<subseteq> {CallMakedirs ''dist'', CallExists FAVICON_SOURCE,
        CallOpen FAVICON_SOURCE,
        CallResize 16 16 LANCZOS, CallSave ''dist/icon16.png'' ''PNG'',
        CallResize 48 48 LANCZOS, CallSave ''dist/icon48.png'' ''PNG'',
        CallResize 128 128 LANCZOS, CallSave ''dist/icon128.png'' ''PNG''}"
      using set_icons_calls [of env "fs w FAVICON_SOURCE"] by auto
    moreover have "CallOpen FAVICON_SOURCE \<in> set ?cs"
      using open_in_icons_calls [of env "fs w FAVICON_SOURCE"] by simp
    ultimately show ?thesis by blast
  qed
qed

lemma script_present_source:
  assumes present: "fs w FAVICON_SOURCE \<noteq> None"
  shows "fs (snd (script env w)) FAVICON_SOURCE = fs w FAVICON_SOURCE"
proof (cases "import_error env")
  case (Some e)
  then show ?thesis by (simp add: script_no_import)
next
  case None
  show ?thesis
  proof (cases "os_makedirs env ''dist'' (log (CallMakedirs ''dist'') w)")
    case (Inl e)
    then show ?thesis
      by (simp add: script_not_entered [OF None Inl] log_def)
  next
    case (Inr w1)
    show ?thesis
      by (simp add: script_present_entered(2) [OF present None Inr] icons_fs_frame
          FAVICON_SOURCE_def)
  qed
qed

text \<open>
  Writing the icons twice from the same source is writing them once.
\<close>

lemma icon_file_idem:
  "icon_file env src s f (icon_file env src s f m) = icon_file env src s f m"
  by (auto simp add: icon_file_def save_leaves_def fun_eq_iff
      split: sum.split prod.split option.split)

lemma icon_file_commute:
  "f \<noteq> g \<Longrightarrow> icon_file env src s f (icon_file env src t g m) =
             icon_file env src t g (icon_file env src s f m)"
  by (auto simp add: icon_file_def save_leaves_def fun_eq_iff
      split: sum.split prod.split option.split)

lemma icons_fs_commute:
  "f \<notin> snd ` set ts \<Longrightarrow>
     icons_fs env src ts (icon_file env src s f m) = icon_file env src s f (icons_fs env src ts m)"
proof (induction ts arbitrary: m)
  case Nil
  show ?case by simp
next
  case (Cons t ts)
  obtain s' g where t: "t = (s', g)" by (cases t)
  with Cons.prems have "f \<noteq> g" and "f \<notin> snd ` set ts" by auto
  with Cons.IH show ?case
    by (simp add: t icon_file_commute [of g f])
qed

lemma icons_fs_idem:
  "distinct (map snd ts) \<Longrightarrow>
     icons_fs env src ts (icons_fs env src ts m) = icons_fs env src ts m"
proof (induction ts arbitrary: m)
  case Nil
  show ?case by simp
next
  case (Cons t ts)
  obtain s f where t: "t = (s, f)" by (cases t)
  with Cons.prems have fresh: "f \<notin> snd ` set ts" and rest: "distinct (map snd ts)"
    by auto
  have "icons_fs env src (t # ts) (icons_fs env src (t # ts) m) =
      icons_fs env src ts (icon_file env src s f (icon_file env src s f (icons_fs env src ts m)))"
    by (simp add: t icons_fs_commute [OF fresh])
  also have "\<dots> = icon_file env src s f (icons_fs env src ts (icons_fs env src ts m))"
    by (simp add: icon_file_idem icons_fs_commute [OF fresh])
  also have "\<dots> = icons_fs env src (t # ts) m"
    by (simp add: t Cons.IH [OF rest] icons_fs_commute [OF fresh])
  finally show ?case .
qed

lemma distinct_icons_made: "distinct (map snd (icons_made env src))"
  by (auto simp add: icons_made_def split: sum.split)

lemma present_status_same:
  assumes "fs a FAVICON_SOURCE = fs b FAVICON_SOURCE"
  shows "fst (finalize env a (report env (create_icons env a))) =
         fst (finalize env b (report env (create_icons env b)))"
  using assms
  by (auto simp add: fst_finalize create_icons_eq report_def print_def
      split: sum.split option.split)

lemma finalize_baseline: "stdout v = stdout w \<Longrightarrow> finalize env v r = finalize env w r"
  by (simp add: finalize_def)

lemma script_rerun:
  assumes present: "fs w FAVICON_SOURCE \<noteq> None"
  shows "fs (snd (script env (snd (script env w)))) = fs (snd (script env w)) \<and>
         fst (script env (snd (script env w))) = fst (script env w)"
proof (cases "import_error env")
  case (Some e)
  then show ?thesis by (simp add: script_no_import)
next
  case None
  show ?thesis
  proof (cases "os_makedirs env ''dist'' (log (CallMakedirs ''dist'') w)")
    case (Inl e)
    let ?w' = "log (CallMakedirs ''dist'') w"
    have first: "script env w = (uncaught env, ?w')"
      by (rule script_not_entered [OF None Inl])
    have "fs (log (CallMakedirs ''dist'') ?w') = fs (log (CallMakedirs ''dist'') w)"
      by (simp add: log_def)
    from os_makedirs_same_fs [OF this, of env "''dist''"] Inl
    obtain e' where "os_makedirs env ''dist'' (log (CallMakedirs ''dist'') ?w') = Inl e'"
      by auto
    from script_not_entered [OF None this] first show ?thesis
      by (simp add: log_def)
  next
    case (Inr w1)
    define w' where "w' = snd (script env w)"
    note first = script_present_entered [OF present None Inr]
    have src': "fs w' FAVICON_SOURCE = fs w FAVICON_SOURCE"
      unfolding w'_def by (rule script_present_source [OF present])
    with present have present': "fs w' FAVICON_SOURCE \<noteq> None" by simp
    have dist': "fs w' ''dist'' = Some Dir"
      by (simp add: w'_def first(2) icons_fs_frame)
    then have mk': "os_makedirs env ''dist'' (log (CallMakedirs ''dist'') w') =
        Inr (log (CallMakedirs ''dist'') w')"
      by (intro os_makedirs_Dir) (simp add: log_def)
    note second = script_present_entered [OF present' None mk']
    have keep: "(fs w')(''dist'' \<mapsto> Dir) = fs w'"
      using dist' by (simp add: fun_upd_idem)
    have "fs w' = icons_fs env (fs w FAVICON_SOURCE) (icons_made env (fs w FAVICON_SOURCE))
        ((fs w)(''dist'' \<mapsto> Dir))"
      by (simp add: w'_def first(2))
    then have "fs (snd (script env w')) = fs w'"
      unfolding second(2) src' keep
      by (simp add: icons_fs_idem [OF distinct_icons_made])
    moreover have "fst (script env w') = fst (script env w)"
    proof -
      let ?a = "log (CallExists FAVICON_SOURCE) (log (CallMakedirs ''dist'') w')"
      let ?b = "log (CallExists FAVICON_SOURCE) w1"
      have base_a: "stdout w' = stdout ?a" by (simp add: log_def)
      have base_b: "stdout w = stdout ?b"
        using os_makedirs_Inr [OF Inr] by (simp add: log_def)
      have same: "fs ?a FAVICON_SOURCE = fs ?b FAVICON_SOURCE"
        using os_makedirs_Inr [OF Inr] src' by (simp add: log_def FAVICON_SOURCE_def)
      show ?thesis
        unfolding second(1) first(1)
        unfolding finalize_baseline [OF base_a] finalize_baseline [OF base_b]
        by (rule present_status_same [OF same])
    qed
    ultimately show ?thesis by (simp add: w'_def)
  qed
qed

lemma create_icon_same_source:
  assumes "fs v FAVICON_SOURCE = fs w FAVICON_SOURCE"
  shows "fst (create_icon_from_favicon env s f v) = fst (create_icon_from_favicon env s f w)"
    and "fst (create_icon_from_favicon env s f w) = Inr True \<Longrightarrow>
         fs (snd (create_icon_from_favicon env s f v)) f =
         fs (snd (create_icon_from_favicon env s f w)) f"
  using assms
  by (auto simp add: create_icon_eq icon_file_def icon_result_def icon_raised_def
      split: sum.splits option.splits prod.splits)

lemma check_source_fetched:
  assumes "fs w FAVICON_SOURCE = None"
    and "print_error env (MsgNotFound FAVICON_SOURCE) = None"
    and "curl env curl_argv = Completed 0 http (Some b)"
  shows "check_source env w =
     (let w3 = write_file FAVICON_SOURCE b
                 (log (CallRun curl_argv)
                   ((log (CallExists FAVICON_SOURCE) w)
                      \<lparr>stdout := stdout w @ [MsgNotFound FAVICON_SOURCE]\<rparr>))
      in case print_error env (MsgDownloaded FAVICON_SOURCE) of
           None \<Rightarrow> Inr (w3\<lparr>stdout := stdout w3 @ [MsgDownloaded FAVICON_SOURCE]\<rparr>)
         | Some e \<Rightarrow> Inl (uncaught env, w3))"
  using assms
  by (simp add: check_source_def os_path_exists_def Let_def world_ops split: option.split)

lemma create_icons_frame:
  "p \<noteq> ''dist/icon16.png'' \<Longrightarrow> p \<noteq> ''dist/icon48.png'' \<Longrightarrow> p \<noteq> ''dist/icon128.png'' \<Longrightarrow>
     fs (snd (create_icons env w)) p = fs w p"
  by (simp add: create_icons_eq icons_fs_frame)

lemma create_icons_calls: "\<exists>cs. calls (snd (create_icons env w)) = calls w @ cs"
  by (simp add: create_icons_eq)

lemma create_icons_stdout: "\<exists>ls. stdout (snd (create_icons env w)) = stdout w @ ls"
  by (simp add: create_icons_eq)

lemma create_icon_try_succeeds:
  "(\<exists>w'. create_icon_try env s f w = Inr (True, w')) =
     (\<exists>img img_resized out.
        Image_open env w FAVICON_SOURCE = Inr img \<and>
        pil_resize env img (s, s) LANCZOS = Inr img_resized \<and>
        pil_save env img_resized f ''PNG'' = Inr out \<and>
        print_error env (MsgCreated f s) = None)"
  unfolding create_icon_try_def
  by (auto simp add: Image_open_def world_ops Let_def
      split: option.splits node.splits sum.splits prod.splits)

lemma create_icon_try_True: "create_icon_try env s f w = Inr (r, w') \<Longrightarrow> r"
  unfolding create_icon_try_def
  by (auto simp add: Let_def split: option.splits node.splits sum.splits prod.splits)

lemma create_icon_cases:
  "(fst (create_icon_from_favicon env s f w) = Inr True) =
     (\<exists>w'. create_icon_try env s f w = Inr (True, w'))"
  "(fst (create_icon_from_favicon env s f w) = Inr False) =
     (\<exists>e w1. create_icon_try env s f w = Inl (e, w1) \<and> print_error env (MsgFailed f e) = None)"
  "(fst (create_icon_from_favicon env s f w) = Inl e') =
     (\<exists>e w1. create_icon_try env s f w = Inl (e, w1) \<and> print_error env (MsgFailed f e) = Some e')"
  using create_icon_try_True [of env s f w]
  by (auto simp add: create_icon_from_favicon_def print_def
      split: sum.splits prod.splits option.splits)



lemma main_block_zero:
  "(fst (main_block env v) = 0) =
     (\<exists>w2. check_source env v = Inr w2 \<and> fst (create_icons env w2) = Inr True \<and>
           print_error env MsgAllCreated = None)"
  by (auto simp add: main_block_def report_zero split: sum.splits dest: check_source_halts(2))

lemma main_block_zero_stdout:
  assumes "fst (main_block env v) = 0"
  shows "stdout (snd (main_block env v)) \<noteq> stdout v"
proof -
  from assms obtain w2 where cs: "check_source env v = Inr w2"
    by (auto simp add: main_block_zero)
  with assms have zero: "fst (report env (create_icons env w2)) = 0"
    by (simp add: main_block_def)
  from check_source_stdout(1) [OF cs] obtain ls where "stdout w2 = stdout v @ ls"
    by blast
  moreover from create_icons_stdout [of env w2] obtain ls' where
    "stdout (snd (create_icons env w2)) = stdout w2 @ ls'"
    by blast
  ultimately show ?thesis
    using report_zero_stdout [OF zero] cs by (simp add: main_block_def)
qed

lemma script_present_stdout:
  assumes present: "fs w FAVICON_SOURCE \<noteq> None"
    and imported: "import_error env = None"
    and mk: "os_makedirs env ''dist'' (log (CallMakedirs ''dist'') w) = Inr w1"
  shows "\<exists>ls. stdout (snd (script env w)) =
           stdout w @ icons_lines env (fs w FAVICON_SOURCE) (icons_made env (fs w FAVICON_SOURCE)) @ ls"
    and "(fst (script env w) = 0) =
           (icons_result env (fs w FAVICON_SOURCE) = Inr True \<and>
            print_error env MsgAllCreated = None \<and> \<not> flush_fails env)"
proof -
  let ?a = "log (CallExists FAVICON_SOURCE) w1"
  from os_makedirs_Inr [OF mk] have
    w1: "fs w1 = (fs w)(''dist'' \<mapsto> Dir)" "stdout w1 = stdout w"
    by (simp_all add: log_def)
  then have src: "fs ?a FAVICON_SOURCE = fs w FAVICON_SOURCE"
    by (simp add: log_def FAVICON_SOURCE_def)
  note run = script_present_entered(1) [OF present imported mk]
  from report_stdout [of env "create_icons env ?a"] obtain ls where
    "stdout (snd (report env (create_icons env ?a))) = stdout (snd (create_icons env ?a)) @ ls"
    by blast
  moreover have "stdout (snd (create_icons env ?a)) =
      stdout w @ icons_lines env (fs w FAVICON_SOURCE) (icons_made env (fs w FAVICON_SOURCE))"
    unfolding create_icons_eq src by (simp add: w1(2) log_def)
  ultimately show "\<exists>ls. stdout (snd (script env w)) =
      stdout w @ icons_lines env (fs w FAVICON_SOURCE) (icons_made env (fs w FAVICON_SOURCE)) @ ls"
    unfolding run snd_finalize by simp
  from src w1 have "fs w1 FAVICON_SOURCE \<noteq> None"
    using present by (simp add: log_def)
  then have cs: "check_source env w1 = Inr ?a"
    by (rule check_source_present)
  have "(fst (script env w) = 0) = (fst (main_block env w1) = 0 \<and> \<not> flush_fails env)"
    using main_block_zero_stdout [of env w1] w1
    by (auto simp add: script_entered [OF imported mk] fst_finalize)
  moreover have "fst (create_icons env ?a) = icons_result env (fs w FAVICON_SOURCE)"
    unfolding create_icons_eq src by simp
  ultimately show "(fst (script env w) = 0) =
           (icons_result env (fs w FAVICON_SOURCE) = Inr True \<and>
            print_error env MsgAllCreated = None \<and> \<not> flush_fails env)"
    by (simp add: main_block_zero cs)
qed



lemma create_icon_True:
  assumes "create_icon_from_favicon env s f w = (Inr True, w')"
  shows "\<exists>b img img_resized out.
           fs w FAVICON_SOURCE = Some (File b) \<and>
           pil_open env b = Inr img \<and>
           pil_resize env img (s, s) LANCZOS = Inr img_resized \<and>
           pil_save env img_resized f ''PNG'' = Inr out \<and>
           print_error env (MsgCreated f s) = None \<and>
           fs w' = (fs w)(f \<mapsto> File out) \<and>
           stdout w' = stdout w @ [MsgCreated f s] \<and>
           calls w' = calls w @ [CallOpen FAVICON_SOURCE, CallResize s s LANCZOS, CallSave f ''PNG'']"
  using assms unfolding create_icon_from_favicon_def create_icon_try_def
  by (auto simp add: Image_open_def world_ops Let_def
      split: option.splits node.splits sum.splits prod.splits)

lemma check_source_fetch_failed:
  assumes "fs w FAVICON_SOURCE = None" and "fetch_reported_failed (curl env curl_argv)"
  shows "\<exists>c w'. check_source env w = Inl (c, w') \<and> c \<noteq> 0 \<and>
          (\<forall>p. p \<noteq> FAVICON_SOURCE \<longrightarrow> fs w' p = fs w p) \<and>
          (\<exists>cs. calls w' = calls w @ cs \<and>
                set cs \<subseteq> {CallExists FAVICON_SOURCE, CallRun curl_argv})"
  using assms
  by (auto simp add: check_source_def os_path_exists_def fetch_reported_failed_def world_ops
      Let_def split: run_result.splits option.splits sum.splits if_splits)

lemma os_makedirs_raises:
  "(\<exists>e. os_makedirs env p w = Inl e) =
     ((\<exists>b. fs w p = Some (File b)) \<or> (fs w p = None \<and> mkdir_error env p \<noteq> None))"
  by (auto simp add: os_makedirs_def split: option.splits node.splits)

lemma main_block_dist: "fs (snd (main_block env w)) ''dist'' = fs w ''dist''"
proof (cases "check_source env w")
  case (Inl r)
  obtain c w1 where r: "r = (c, w1)" by (cases r)
  with Inl check_source_frame(2) [of env w c w1 "''dist''"] show ?thesis
    by (simp add: main_block_def FAVICON_SOURCE_def)
next
  case (Inr w1)
  with check_source_frame(1) [of env w w1 "''dist''"] show ?thesis
    by (simp add: main_block_def report_frame create_icons_frame FAVICON_SOURCE_def)
qed

lemma main_block_calls:
  "\<exists>cs. calls (snd (main_block env w)) = calls w @ CallExists FAVICON_SOURCE # cs"
proof (cases "check_source env w")
  case (Inl r)
  obtain c w1 where r: "r = (c, w1)" by (cases r)
  with Inl check_source_calls(2) [of env w c w1] show ?thesis
    by (simp add: main_block_def)
next
  case (Inr w1)
  from check_source_calls(1) [OF Inr] create_icons_calls [of env w1] Inr show ?thesis
    by (auto simp add: main_block_def report_frame)
qed

text \<open>
  The failures of the fetch that line 38 sees, or that leave \<^verbatim>\<open>subprocess.run\<close> as an
  exception: with the source absent, the run ends with a status that is not zero, makes no
  call of the image library and leaves the three icon paths as they were.
\<close>

lemma reported_fetch_failure_halts:
  assumes absent: "fs w FAVICON_SOURCE = None"
    and failed: "fetch_reported_failed (curl env curl_argv)"
  shows "fst (script env w) \<noteq> 0 \<and>
         fs (snd (script env w)) ''dist/icon16.png'' = fs w ''dist/icon16.png'' \<and>
         fs (snd (script env w)) ''dist/icon48.png'' = fs w ''dist/icon48.png'' \<and>
         fs (snd (script env w)) ''dist/icon128.png'' = fs w ''dist/icon128.png'' \<and>
         (\<exists>cs. calls (snd (script env w)) = calls w @ cs \<and>
               set cs \<subseteq> {CallMakedirs ''dist'', CallExists FAVICON_SOURCE, CallRun curl_argv})"
proof (cases "import_error env")
  case (Some e)
  then show ?thesis by (simp add: script_no_import)
next
  case None
  show ?thesis
  proof (cases "os_makedirs env ''dist'' (log (CallMakedirs ''dist'') w)")
    case (Inl e)
    then show ?thesis
      by (simp add: script_not_entered [OF None Inl] log_def)
  next
    case (Inr w1)
    from os_makedirs_Inr [OF Inr]
    have w1: "fs w1 = (fs w)(''dist'' \<mapsto> Dir)" "calls w1 = calls w @ [CallMakedirs ''dist'']"
      by (simp_all add: log_def)
    with absent have "fs w1 FAVICON_SOURCE = None"
      by (simp add: FAVICON_SOURCE_def)
    from check_source_fetch_failed [OF this failed] obtain c w' cs where
      halt: "check_source env w1 = Inl (c, w')" and
      status: "c \<noteq> 0" and
      frame: "\<forall>p. p \<noteq> FAVICON_SOURCE \<longrightarrow> fs w' p = fs w1 p" and
      log: "calls w' = calls w1 @ cs" "set cs \<subseteq> {CallExists FAVICON_SOURCE, CallRun curl_argv}"
      by blast
    have run: "script env w = finalize env w (c, w')"
      using halt by (simp add: script_entered [OF None Inr] main_block_def)
    have "calls (snd (script env w)) = calls w @ (CallMakedirs ''dist'' # cs)"
      by (simp add: run log w1)
    moreover have "set (CallMakedirs ''dist'' # cs) \<subseteq>
        {CallMakedirs ''dist'', CallExists FAVICON_SOURCE, CallRun curl_argv}"
      using log(2) by auto
    ultimately have "\<exists>cs. calls (snd (script env w)) = calls w @ cs \<and>
        set cs \<subseteq> {CallMakedirs ''dist'', CallExists FAVICON_SOURCE, CallRun curl_argv}"
      by blast
    with frame w1 status show ?thesis
      by (simp add: run fst_finalize FAVICON_SOURCE_def)
  qed
qed

section \<open>The claims\<close>

subsection \<open>C1: the exit status\<close>




subsection \<open>C2: a failure on one icon and the other icons\<close>




subsection \<open>C3: a failed fetch\<close>

text \<open>
  C3. The claim: if the source image is absent and the network fetch fails, the process
  halts at once with a status that is not zero, and no resize is attempted. The code does
  not behave so when the fetch fails with an HTTP error. The command line of line 37 has
  no \<^verbatim>\<open>-f\<close>, so on an answer 404 \<^verbatim>\<open>curl\<close> writes the error page to the source path and ends with
  status 0. Line 38 sees nothing wrong: the script prints line 41, makes the three
  attempts on the page, each of which fails at \<^verbatim>\<open>Image.open\<close> and is reported, and ends with
  status 1 on line 53 only. For the failures that line 38 does see, the claim holds: lemma
  \<open>reported_fetch_failure_halts\<close>.
\<close>

theorem http_error_not_detected:
  "fs empty_world FAVICON_SOURCE = None \<and>
   curl env404 curl_argv = Completed 0 (Some 404) (Some [60, 104, 49, 62]) \<and>
   fetch_failed (curl env404 curl_argv) \<and>
   stdout (snd (script env404 empty_world)) =
     [MsgNotFound FAVICON_SOURCE, MsgDownloaded FAVICON_SOURCE,
      MsgFailed ''dist/icon16.png'' (LibError ''cannot identify image file''),
      MsgFailed ''dist/icon48.png'' (LibError ''cannot identify image file''),
      MsgFailed ''dist/icon128.png'' (LibError ''cannot identify image file''),
      MsgSomeFailed] \<and>
   calls (snd (script env404 empty_world)) =
     [CallMakedirs ''dist'', CallExists FAVICON_SOURCE, CallRun curl_argv,
      CallOpen FAVICON_SOURCE, CallOpen FAVICON_SOURCE, CallOpen FAVICON_SOURCE] \<and>
   fs (snd (script env404 empty_world)) FAVICON_SOURCE = Some (File [60, 104, 49, 62]) \<and>
   fst (script env404 empty_world) = 1"
  by (simp add: model_defs demo_defs)

subsection \<open>C4: three icons from a valid source\<close>

text \<open>
  C4, amended. A call that returns \<^verbatim>\<open>True\<close> has opened the source, resized it to
  \<open>(size, size)\<close> with the filter \<open>LANCZOS\<close>, saved the result as PNG under its file name,
  and made no other call; the file then holds what the save produced. For the whole
  script: when the imports load, line 11 returns, the library opens the source and resizes
  and saves it at the three sizes, and the three lines of line 26 can be printed, the run
  makes exactly these nine calls after the existence check, and the file system after the
  run is the one before it with \<^verbatim>\<open>dist\<close> a directory and the three files \<^verbatim>\<open>dist/icon16.png\<close>,
  \<^verbatim>\<open>dist/icon48.png\<close> and \<^verbatim>\<open>dist/icon128.png\<close>: exactly three output files. Such a run ends
  with status 0 exactly when line 50 is printed and standard output is flushed.
\<close>

theorem three_icons_from_valid_source:
  "(\<forall>w'. create_icon_from_favicon env size' filename w = (Inr True, w') \<longrightarrow>
      (\<exists>b img img_resized out.
         fs w FAVICON_SOURCE = Some (File b) \<and>
         pil_open env b = Inr img \<and>
         pil_resize env img (size', size') LANCZOS = Inr img_resized \<and>
         pil_save env img_resized filename ''PNG'' = Inr out \<and>
         fs w' = (fs w)(filename \<mapsto> File out) \<and>
         calls w' = calls w @ [CallOpen FAVICON_SOURCE, CallResize size' size' LANCZOS,
                               CallSave filename ''PNG'']))
   \<and> (\<forall>w1 b img i16 o16 i48 o48 i128 o128.
       import_error env = None \<and>
       os_makedirs env ''dist'' (log (CallMakedirs ''dist'') w) = Inr w1 \<and>
       fs w FAVICON_SOURCE = Some (File b) \<and> pil_open env b = Inr img \<and>
       pil_resize env img (16, 16) LANCZOS = Inr i16 \<and>
       pil_save env i16 ''dist/icon16.png'' ''PNG'' = Inr o16 \<and>
       pil_resize env img (48, 48) LANCZOS = Inr i48 \<and>
       pil_save env i48 ''dist/icon48.png'' ''PNG'' = Inr o48 \<and>
       pil_resize env img (128, 128) LANCZOS = Inr i128 \<and>
       pil_save env i128 ''dist/icon128.png'' ''PNG'' = Inr o128 \<and>
       print_error env (MsgCreated ''dist/icon16.png'' 16) = None \<and>
       print_error env (MsgCreated ''dist/icon48.png'' 48) = None \<and>
       print_error env (MsgCreated ''dist/icon128.png'' 128) = None \<longrightarrow>
       fs (snd (script env w)) =
         (fs w)(''dist'' \<mapsto> Dir, ''dist/icon16.png'' \<mapsto> File o16,
                ''dist/icon48.png'' \<mapsto> File o48, ''dist/icon128.png'' \<mapsto> File o128) \<and>
       calls (snd (script env w)) =
         calls w @
         [CallMakedirs ''dist'', CallExists FAVICON_SOURCE,
          CallOpen FAVICON_SOURCE, CallResize 16 16 LANCZOS, CallSave ''dist/icon16.png'' ''PNG'',
          CallOpen FAVICON_SOURCE, CallResize 48 48 LANCZOS, CallSave ''dist/icon48.png'' ''PNG'',
          CallOpen FAVICON_SOURCE, CallResize 128 128 LANCZOS,
          CallSave ''dist/icon128.png'' ''PNG''] \<and>
       (\<exists>ls. stdout (snd (script env w)) =
               stdout w @ [MsgCreated ''dist/icon16.png'' 16, MsgCreated ''dist/icon48.png'' 48,
                           MsgCreated ''dist/icon128.png'' 128] @ ls) \<and>
       (fst (script env w) = 0) = (print_error env MsgAllCreated = None \<and> \<not> flush_fails env))"
proof (intro conjI allI impI)
  fix w'
  assume "create_icon_from_favicon env size' filename w = (Inr True, w')"
  from create_icon_True [OF this]
  show "\<exists>b img img_resized out.
         fs w FAVICON_SOURCE = Some (File b) \<and>
         pil_open env b = Inr img \<and>
         pil_resize env img (size', size') LANCZOS = Inr img_resized \<and>
         pil_save env img_resized filename ''PNG'' = Inr out \<and>
         fs w' = (fs w)(filename \<mapsto> File out) \<and>
         calls w' = calls w @ [CallOpen FAVICON_SOURCE, CallResize size' size' LANCZOS,
                               CallSave filename ''PNG'']"
    by blast
next
  fix w1 b img i16 o16 i48 o48 i128 o128
  assume valid: "import_error env = None \<and>
       os_makedirs env ''dist'' (log (CallMakedirs ''dist'') w) = Inr w1 \<and>
       fs w FAVICON_SOURCE = Some (File b) \<and> pil_open env b = Inr img \<and>
       pil_resize env img (16, 16) LANCZOS = Inr i16 \<and>
       pil_save env i16 ''dist/icon16.png'' ''PNG'' = Inr o16 \<and>
       pil_resize env img (48, 48) LANCZOS = Inr i48 \<and>
       pil_save env i48 ''dist/icon48.png'' ''PNG'' = Inr o48 \<and>
       pil_resize env img (128, 128) LANCZOS = Inr i128 \<and>
       pil_save env i128 ''dist/icon128.png'' ''PNG'' = Inr o128 \<and>
       print_error env (MsgCreated ''dist/icon16.png'' 16) = None \<and>
       print_error env (MsgCreated ''dist/icon48.png'' 48) = None \<and>
       print_error env (MsgCreated ''dist/icon128.png'' 128) = None"
  then have present: "fs w FAVICON_SOURCE \<noteq> None" and imported: "import_error env = None"
    and mk: "os_makedirs env ''dist'' (log (CallMakedirs ''dist'') w) = Inr w1"
    by simp_all
  from valid have bs:
    "icon_bytes env (fs w FAVICON_SOURCE) 16 ''dist/icon16.png'' = Inr o16"
    "icon_bytes env (fs w FAVICON_SOURCE) 48 ''dist/icon48.png'' = Inr o48"
    "icon_bytes env (fs w FAVICON_SOURCE) 128 ''dist/icon128.png'' = Inr o128"
    by (simp_all add: icon_bytes_def)
  from valid have c:
    "icon_calls env (fs w FAVICON_SOURCE) 16 ''dist/icon16.png'' =
       [CallOpen FAVICON_SOURCE, CallResize 16 16 LANCZOS, CallSave ''dist/icon16.png'' ''PNG'']"
    "icon_calls env (fs w FAVICON_SOURCE) 48 ''dist/icon48.png'' =
       [CallOpen FAVICON_SOURCE, CallResize 48 48 LANCZOS, CallSave ''dist/icon48.png'' ''PNG'']"
    "icon_calls env (fs w FAVICON_SOURCE) 128 ''dist/icon128.png'' =
       [CallOpen FAVICON_SOURCE, CallResize 128 128 LANCZOS, CallSave ''dist/icon128.png'' ''PNG'']"
    by (simp_all add: icon_calls_def)
  from valid bs have r:
    "icon_result env (fs w FAVICON_SOURCE) 16 ''dist/icon16.png'' = Inr True"
    "icon_result env (fs w FAVICON_SOURCE) 48 ''dist/icon48.png'' = Inr True"
    "icon_result env (fs w FAVICON_SOURCE) 128 ''dist/icon128.png'' = Inr True"
    by (simp_all add: icon_result_def icon_raised_def)
  from valid bs have l:
    "icon_lines env (fs w FAVICON_SOURCE) 16 ''dist/icon16.png'' = [MsgCreated ''dist/icon16.png'' 16]"
    "icon_lines env (fs w FAVICON_SOURCE) 48 ''dist/icon48.png'' = [MsgCreated ''dist/icon48.png'' 48]"
    "icon_lines env (fs w FAVICON_SOURCE) 128 ''dist/icon128.png'' =
       [MsgCreated ''dist/icon128.png'' 128]"
    by (simp_all add: icon_lines_def icon_raised_def)
  have made: "icons_made env (fs w FAVICON_SOURCE) =
      [(16, ''dist/icon16.png''), (48, ''dist/icon48.png''), (128, ''dist/icon128.png'')]"
    by (simp add: icons_made_def r)
  have all: "icons_result env (fs w FAVICON_SOURCE) = Inr True"
    by (simp add: icons_result_def r)
  show "fs (snd (script env w)) =
         (fs w)(''dist'' \<mapsto> Dir, ''dist/icon16.png'' \<mapsto> File o16,
                ''dist/icon48.png'' \<mapsto> File o48, ''dist/icon128.png'' \<mapsto> File o128)"
    by (simp add: script_present_entered(2) [OF present imported mk] made icon_file_def bs)
  show "calls (snd (script env w)) =
         calls w @
         [CallMakedirs ''dist'', CallExists FAVICON_SOURCE,
          CallOpen FAVICON_SOURCE, CallResize 16 16 LANCZOS, CallSave ''dist/icon16.png'' ''PNG'',
          CallOpen FAVICON_SOURCE, CallResize 48 48 LANCZOS, CallSave ''dist/icon48.png'' ''PNG'',
          CallOpen FAVICON_SOURCE, CallResize 128 128 LANCZOS,
          CallSave ''dist/icon128.png'' ''PNG'']"
    by (simp add: script_present_entered(3) [OF present imported mk] made c)
  from script_present_stdout(1) [OF present imported mk]
  show "\<exists>ls. stdout (snd (script env w)) =
               stdout w @ [MsgCreated ''dist/icon16.png'' 16, MsgCreated ''dist/icon48.png'' 48,
                           MsgCreated ''dist/icon128.png'' 128] @ ls"
    by (simp add: made l)
  show "(fst (script env w) = 0) = (print_error env MsgAllCreated = None \<and> \<not> flush_fails env)"
    by (simp add: script_present_stdout(2) [OF present imported mk] all)
qed

text \<open>
  C4, a run on a valid source where everything works: the three files and nothing else.
\<close>

theorem three_icons_from_valid_source_witness:
  "import_error demo_env = None \<and>
   (\<exists>w1. os_makedirs demo_env ''dist'' (log (CallMakedirs ''dist'') favicon_world) = Inr w1) \<and>
   fs favicon_world FAVICON_SOURCE = Some (File [137, 8, 9]) \<and>
   pil_open demo_env [137, 8, 9] = Inr [137, 8, 9] \<and>
   pil_resize demo_env [137, 8, 9] (16, 16) LANCZOS = Inr [137, 8, 9] \<and>
   pil_save demo_env [137, 8, 9] ''dist/icon16.png'' ''PNG'' = Inr [137, 80, 137, 8, 9] \<and>
   pil_resize demo_env [137, 8, 9] (48, 48) LANCZOS = Inr [137, 8, 9] \<and>
   pil_save demo_env [137, 8, 9] ''dist/icon48.png'' ''PNG'' = Inr [137, 80, 137, 8, 9] \<and>
   pil_resize demo_env [137, 8, 9] (128, 128) LANCZOS = Inr [137, 8, 9] \<and>
   pil_save demo_env [137, 8, 9] ''dist/icon128.png'' ''PNG'' = Inr [137, 80, 137, 8, 9] \<and>
   print_error demo_env (MsgCreated ''dist/icon16.png'' 16) = None \<and>
   print_error demo_env (MsgCreated ''dist/icon48.png'' 48) = None \<and>
   print_error demo_env (MsgCreated ''dist/icon128.png'' 128) = None \<and>
   fs (snd (script demo_env favicon_world)) =
     (fs favicon_world)(''dist'' \<mapsto> Dir,
                        ''dist/icon16.png'' \<mapsto> File [137, 80, 137, 8, 9],
                        ''dist/icon48.png'' \<mapsto> File [137, 80, 137, 8, 9],
                        ''dist/icon128.png'' \<mapsto> File [137, 80, 137, 8, 9])"
proof -
  have returns: "\<exists>w1. os_makedirs demo_env ''dist'' (log (CallMakedirs ''dist'') favicon_world) = Inr w1"
    by (simp add: os_makedirs_def log_def demo_defs FAVICON_SOURCE_def)
  have valid: "import_error demo_env = None \<and>
   fs favicon_world FAVICON_SOURCE = Some (File [137, 8, 9]) \<and>
   pil_open demo_env [137, 8, 9] = Inr [137, 8, 9] \<and>
   pil_resize demo_env [137, 8, 9] (16, 16) LANCZOS = Inr [137, 8, 9] \<and>
   pil_save demo_env [137, 8, 9] ''dist/icon16.png'' ''PNG'' = Inr [137, 80, 137, 8, 9] \<and>
   pil_resize demo_env [137, 8, 9] (48, 48) LANCZOS = Inr [137, 8, 9] \<and>
   pil_save demo_env [137, 8, 9] ''dist/icon48.png'' ''PNG'' = Inr [137, 80, 137, 8, 9] \<and>
   pil_resize demo_env [137, 8, 9] (128, 128) LANCZOS = Inr [137, 8, 9] \<and>
   pil_save demo_env [137, 8, 9] ''dist/icon128.png'' ''PNG'' = Inr [137, 80, 137, 8, 9] \<and>
   print_error demo_env (MsgCreated ''dist/icon16.png'' 16) = None \<and>
   print_error demo_env (MsgCreated ''dist/icon48.png'' 48) = None \<and>
   print_error demo_env (MsgCreated ''dist/icon128.png'' 128) = None"
    by (simp add: demo_defs)
  from returns valid three_icons_from_valid_source [of demo_env 16 "''dist/icon16.png''" favicon_world]
  show ?thesis by blast
qed

text \<open>
  C4 as stated (on a valid source the run produces exactly three files) fails where
  standard output cannot encode the check mark of line 26. The first icon is saved, the
  print of line 26 raises inside the \<^verbatim>\<open>try\<close>, the print of the handler raises in turn, and the
  run ends with status 1 and one output file.
\<close>

theorem three_icons_counterexample:
  "import_error ascii_env = None \<and>
   fs favicon_world FAVICON_SOURCE = Some (File [137, 8, 9]) \<and>
   pil_open ascii_env [137, 8, 9] = Inr [137, 8, 9] \<and>
   pil_resize ascii_env [137, 8, 9] (16, 16) LANCZOS = Inr [137, 8, 9] \<and>
   pil_save ascii_env [137, 8, 9] ''dist/icon16.png'' ''PNG'' = Inr [137, 80, 137, 8, 9] \<and>
   pil_resize ascii_env [137, 8, 9] (48, 48) LANCZOS = Inr [137, 8, 9] \<and>
   pil_save ascii_env [137, 8, 9] ''dist/icon48.png'' ''PNG'' = Inr [137, 80, 137, 8, 9] \<and>
   pil_resize ascii_env [137, 8, 9] (128, 128) LANCZOS = Inr [137, 8, 9] \<and>
   pil_save ascii_env [137, 8, 9] ''dist/icon128.png'' ''PNG'' = Inr [137, 80, 137, 8, 9] \<and>
   fst (script ascii_env favicon_world) = 1 \<and>
   fs (snd (script ascii_env favicon_world)) ''dist/icon16.png'' =
     Some (File [137, 80, 137, 8, 9]) \<and>
   fs (snd (script ascii_env favicon_world)) ''dist/icon48.png'' = None \<and>
   fs (snd (script ascii_env favicon_world)) ''dist/icon128.png'' = None"
  by (simp add: model_defs demo_defs)

subsection \<open>C5: no fetch when the source exists\<close>

text \<open>
  C5. If something is at the source path when the script starts, the run makes no call of
  \<^verbatim>\<open>subprocess.run\<close>: no network fetch is issued.
\<close>

theorem existing_source_no_fetch:
  assumes "fs w FAVICON_SOURCE \<noteq> None"
  shows "\<exists>cs. calls (snd (script env w)) = calls w @ cs \<and> (\<forall>argv. CallRun argv \<notin> set cs)"
proof -
  from script_present_calls [OF assms, of env] obtain cs where
    "calls (snd (script env w)) = calls w @ cs" and
    "set cs \<subseteq> {CallMakedirs ''dist'', CallExists FAVICON_SOURCE, CallOpen FAVICON_SOURCE,
                 CallResize 16 16 LANCZOS, CallSave ''dist/icon16.png'' ''PNG'',
                 CallResize 48 48 LANCZOS, CallSave ''dist/icon48.png'' ''PNG'',
                 CallResize 128 128 LANCZOS, CallSave ''dist/icon128.png'' ''PNG''}"
    by blast
  then show ?thesis by (intro exI [of _ cs]) auto
qed

text \<open>
  C5, a run with the source present.
\<close>

theorem existing_source_no_fetch_witness:
  "fs favicon_world FAVICON_SOURCE \<noteq> None \<and>
   (\<exists>cs. calls (snd (script demo_env favicon_world)) = calls favicon_world @ cs \<and>
         (\<forall>argv. CallRun argv \<notin> set cs))"
proof -
  have present: "fs favicon_world FAVICON_SOURCE \<noteq> None"
    by (simp add: demo_defs)
  from present existing_source_no_fetch [OF present, of demo_env] show ?thesis
    by blast
qed

subsection \<open>C6: running the script again\<close>

text \<open>
  C6. With the source present, running the script a second time, on the world the first
  run left, gives the same file system and the same exit status: the outputs are
  overwritten with the same content. One call depends on the world through the source
  only: on two worlds with the same source it returns the same, and when it returns
  \<^verbatim>\<open>True\<close> it leaves the same content in its output file.
\<close>

theorem rerun_same_outputs:
  assumes present: "fs w FAVICON_SOURCE \<noteq> None"
  shows "fs (snd (script env (snd (script env w)))) = fs (snd (script env w)) \<and>
         fst (script env (snd (script env w))) = fst (script env w) \<and>
         (fs v FAVICON_SOURCE = fs w FAVICON_SOURCE \<longrightarrow>
            fst (create_icon_from_favicon env size' filename v) =
              fst (create_icon_from_favicon env size' filename w) \<and>
            (fst (create_icon_from_favicon env size' filename w) = Inr True \<longrightarrow>
               fs (snd (create_icon_from_favicon env size' filename v)) filename =
               fs (snd (create_icon_from_favicon env size' filename w)) filename))"
  using script_rerun [OF present, of env] create_icon_same_source [of v w env size' filename]
  by blast

text \<open>
  C6, two runs on a valid source.
\<close>

theorem rerun_same_outputs_witness:
  "fs favicon_world FAVICON_SOURCE \<noteq> None \<and>
   fs (snd (script demo_env (snd (script demo_env favicon_world)))) ''dist/icon16.png'' =
     Some (File [137, 80, 137, 8, 9]) \<and>
   fs (snd (script demo_env favicon_world)) ''dist/icon16.png'' =
     Some (File [137, 80, 137, 8, 9])"
proof -
  have present: "fs favicon_world FAVICON_SOURCE \<noteq> None"
    by (simp add: demo_defs)
  have "fs (snd (script demo_env favicon_world)) ''dist/icon16.png'' =
      Some (File [137, 80, 137, 8, 9])"
    by (simp add: model_defs demo_defs)
  with present rerun_same_outputs [OF present, of demo_env] show ?thesis
    by simp
qed

subsection \<open>C7: the fetched source is stored before any resize\<close>

text \<open>
  C7. If the source is absent, line 35 is printed and the fetch returns status 0 with
  content \<open>b\<close>, then the source path holds \<open>b\<close> after the block, and the existence check
  and the fetch are the first two calls of the block, before any call of the image
  library. If line 41 is printed, lines 44 to 53 run on the world in which the source
  holds \<open>b\<close>; if the print of line 41 raises, nothing catches the exception and the block
  ends there, without another call.
\<close>

theorem fetched_source_stored_before_resize:
  assumes absent: "fs w FAVICON_SOURCE = None"
    and announced: "print_error env (MsgNotFound FAVICON_SOURCE) = None"
    and fetched: "curl env curl_argv = Completed 0 http (Some b)"
  shows "fs (snd (main_block env w)) FAVICON_SOURCE = Some (File b) \<and>
         (\<exists>cs. calls (snd (main_block env w)) =
                 calls w @ CallExists FAVICON_SOURCE # CallRun curl_argv # cs) \<and>
         (print_error env (MsgDownloaded FAVICON_SOURCE) = None \<longrightarrow>
            (\<exists>w1. check_source env w = Inr w1 \<and>
                  main_block env w = report env (create_icons env w1) \<and>
                  fs w1 = (fs w)(FAVICON_SOURCE \<mapsto> File b) \<and>
                  calls w1 = calls w @ [CallExists FAVICON_SOURCE, CallRun curl_argv])) \<and>
         (\<forall>e. print_error env (MsgDownloaded FAVICON_SOURCE) = Some e \<longrightarrow>
            fst (main_block env w) = uncaught env \<and>
            calls (snd (main_block env w)) =
              calls w @ [CallExists FAVICON_SOURCE, CallRun curl_argv])"
proof (cases "print_error env (MsgDownloaded FAVICON_SOURCE)")
  case (Some e)
  with check_source_fetched [OF absent announced fetched] show ?thesis
    by (simp add: main_block_def Let_def world_ops)
next
  case None
  define w1 where "w1 =
    (write_file FAVICON_SOURCE b
       (log (CallRun curl_argv)
          ((log (CallExists FAVICON_SOURCE) w)
             \<lparr>stdout := stdout w @ [MsgNotFound FAVICON_SOURCE]\<rparr>)))
      \<lparr>stdout := stdout w @ [MsgNotFound FAVICON_SOURCE, MsgDownloaded FAVICON_SOURCE]\<rparr>"
  have cs: "check_source env w = Inr w1"
    using check_source_fetched [OF absent announced fetched] None
    by (simp add: w1_def Let_def world_ops)
  then have mb: "main_block env w = report env (create_icons env w1)"
    by (simp add: main_block_def)
  have fs1: "fs w1 = (fs w)(FAVICON_SOURCE \<mapsto> File b)"
    by (simp add: w1_def world_ops)
  have calls1: "calls w1 = calls w @ [CallExists FAVICON_SOURCE, CallRun curl_argv]"
    by (simp add: w1_def world_ops)
  have "fs (snd (main_block env w)) FAVICON_SOURCE = fs w1 FAVICON_SOURCE"
    unfolding mb report_frame by (rule create_icons_frame) (simp_all add: FAVICON_SOURCE_def)
  with fs1 have stored: "fs (snd (main_block env w)) FAVICON_SOURCE = Some (File b)"
    by simp
  from create_icons_calls [of env w1] obtain cs' where
    "calls (snd (create_icons env w1)) = calls w1 @ cs'"
    by blast
  with calls1 have "calls (snd (main_block env w)) =
      calls w @ CallExists FAVICON_SOURCE # CallRun curl_argv # cs'"
    by (simp add: mb report_frame)
  with stored cs mb fs1 calls1 None show ?thesis by auto
qed

text \<open>
  C7, a run that fetches the source.
\<close>

theorem fetched_source_stored_before_resize_witness:
  "fs made_world FAVICON_SOURCE = None \<and>
   print_error demo_env (MsgNotFound FAVICON_SOURCE) = None \<and>
   curl demo_env curl_argv = Completed 0 (Some 200) (Some [137, 1, 2, 3]) \<and>
   print_error demo_env (MsgDownloaded FAVICON_SOURCE) = None \<and>
   (\<exists>w1. check_source demo_env made_world = Inr w1 \<and>
         main_block demo_env made_world = report demo_env (create_icons demo_env w1) \<and>
         fs w1 = (fs made_world)(FAVICON_SOURCE \<mapsto> File [137, 1, 2, 3]) \<and>
         calls w1 = calls made_world @ [CallExists FAVICON_SOURCE, CallRun curl_argv]) \<and>
   fs (snd (main_block demo_env made_world)) FAVICON_SOURCE = Some (File [137, 1, 2, 3])"
proof -
  have absent: "fs made_world FAVICON_SOURCE = None"
    by (simp add: demo_defs FAVICON_SOURCE_def)
  have announced: "print_error demo_env (MsgNotFound FAVICON_SOURCE) = None"
    by (simp add: demo_defs)
  have fetched: "curl demo_env curl_argv = Completed 0 (Some 200) (Some [137, 1, 2, 3])"
    by (simp add: demo_defs)
  have printed: "print_error demo_env (MsgDownloaded FAVICON_SOURCE) = None"
    by (simp add: demo_defs)
  from absent announced fetched printed
    fetched_source_stored_before_resize [OF absent announced fetched]
  show ?thesis by blast
qed

subsection \<open>C8: the source is only read\<close>



subsection \<open>C9: the output directory\<close>

text \<open>
  C9, amended. \<^verbatim>\<open>os.makedirs('dist', exist_ok=True)\<close> is the first call of the script once
  the imports have loaded; when they do not load, the run ends with a status that is not
  zero and nothing done. In every run in which that call returns, \<^verbatim>\<open>dist\<close> is a directory when the run ends,
  and the existence check of the source is the next call. This includes the runs where the
  source is absent and the fetch is seen to fail, which end with a status that is not zero
  and leave the three icon paths as they were. When the call raises, nothing catches the
  exception: the run ends with a status that is not zero, with the file system and
  standard output as they were and no other call made. It raises exactly when a regular file is named \<^verbatim>\<open>dist\<close>, or
  nothing that the file system shows is named so and \<^verbatim>\<open>mkdir\<close> fails.
\<close>

theorem dist_directory_after_run:
  "(\<forall>e. import_error env = Some e \<longrightarrow>
        script env w = (uncaught env, w) \<and> fst (script env w) \<noteq> 0)
   \<and> (import_error env = None \<longrightarrow>
        (\<exists>cs. calls (snd (script env w)) = calls w @ CallMakedirs ''dist'' # cs))
   \<and> (\<forall>w1. import_error env = None \<and>
        os_makedirs env ''dist'' (log (CallMakedirs ''dist'') w) = Inr w1 \<longrightarrow>
        fs (snd (script env w)) ''dist'' = Some Dir \<and>
        (\<exists>cs. calls (snd (script env w)) =
                calls w @ CallMakedirs ''dist'' # CallExists FAVICON_SOURCE # cs) \<and>
        (fs w FAVICON_SOURCE = None \<and> fetch_reported_failed (curl env curl_argv) \<longrightarrow>
           fst (script env w) \<noteq> 0 \<and>
           fs (snd (script env w)) ''dist/icon16.png'' = fs w ''dist/icon16.png'' \<and>
           fs (snd (script env w)) ''dist/icon48.png'' = fs w ''dist/icon48.png'' \<and>
           fs (snd (script env w)) ''dist/icon128.png'' = fs w ''dist/icon128.png''))
   \<and> (\<forall>e. import_error env = None \<and>
        os_makedirs env ''dist'' (log (CallMakedirs ''dist'') w) = Inl e \<longrightarrow>
        fst (script env w) = uncaught env \<and>
        fst (script env w) \<noteq> 0 \<and>
        fs (snd (script env w)) = fs w \<and>
        stdout (snd (script env w)) = stdout w \<and>
        calls (snd (script env w)) = calls w @ [CallMakedirs ''dist''])
   \<and> ((\<exists>e. os_makedirs env ''dist'' (log (CallMakedirs ''dist'') w) = Inl e) =
        ((\<exists>b. fs w ''dist'' = Some (File b)) \<or>
         (fs w ''dist'' = None \<and> mkdir_error env ''dist'' \<noteq> None)))"
proof (intro conjI)
  show "\<forall>e. import_error env = Some e \<longrightarrow>
        script env w = (uncaught env, w) \<and> fst (script env w) \<noteq> 0"
    by (simp add: script_no_import)
next
  show "import_error env = None \<longrightarrow>
        (\<exists>cs. calls (snd (script env w)) = calls w @ CallMakedirs ''dist'' # cs)"
  proof
    assume imported: "import_error env = None"
    show "\<exists>cs. calls (snd (script env w)) = calls w @ CallMakedirs ''dist'' # cs"
    proof (cases "os_makedirs env ''dist'' (log (CallMakedirs ''dist'') w)")
      case (Inl e)
      then show ?thesis
        by (simp add: script_not_entered [OF imported Inl] log_def)
    next
      case (Inr w1)
      from os_makedirs_Inr [OF Inr] have "calls w1 = calls w @ [CallMakedirs ''dist'']"
        by (simp add: log_def)
      with main_block_calls [of env w1] show ?thesis
        by (auto simp add: script_entered [OF imported Inr])
    qed
  qed
next
  show "\<forall>w1. import_error env = None \<and>
        os_makedirs env ''dist'' (log (CallMakedirs ''dist'') w) = Inr w1 \<longrightarrow>
        fs (snd (script env w)) ''dist'' = Some Dir \<and>
        (\<exists>cs. calls (snd (script env w)) =
                calls w @ CallMakedirs ''dist'' # CallExists FAVICON_SOURCE # cs) \<and>
        (fs w FAVICON_SOURCE = None \<and> fetch_reported_failed (curl env curl_argv) \<longrightarrow>
           fst (script env w) \<noteq> 0 \<and>
           fs (snd (script env w)) ''dist/icon16.png'' = fs w ''dist/icon16.png'' \<and>
           fs (snd (script env w)) ''dist/icon48.png'' = fs w ''dist/icon48.png'' \<and>
           fs (snd (script env w)) ''dist/icon128.png'' = fs w ''dist/icon128.png'')"
  proof (intro allI impI)
    fix w1
    assume h: "import_error env = None \<and>
      os_makedirs env ''dist'' (log (CallMakedirs ''dist'') w) = Inr w1"
    then have imported: "import_error env = None"
      and mk: "os_makedirs env ''dist'' (log (CallMakedirs ''dist'') w) = Inr w1"
      by simp_all
    from os_makedirs_Inr [OF mk]
    have w1: "fs w1 = (fs w)(''dist'' \<mapsto> Dir)" "calls w1 = calls w @ [CallMakedirs ''dist'']"
      by (simp_all add: log_def)
    note run = script_entered [OF imported mk]
    have dir: "fs (snd (script env w)) ''dist'' = Some Dir"
      by (simp add: run main_block_dist w1)
    from main_block_calls [of env w1]
    have order: "\<exists>cs. calls (snd (script env w)) =
        calls w @ CallMakedirs ''dist'' # CallExists FAVICON_SOURCE # cs"
      by (auto simp add: run w1)
    have halt: "fst (script env w) \<noteq> 0 \<and>
        fs (snd (script env w)) ''dist/icon16.png'' = fs w ''dist/icon16.png'' \<and>
        fs (snd (script env w)) ''dist/icon48.png'' = fs w ''dist/icon48.png'' \<and>
        fs (snd (script env w)) ''dist/icon128.png'' = fs w ''dist/icon128.png''"
      if failed: "fs w FAVICON_SOURCE = None \<and> fetch_reported_failed (curl env curl_argv)"
    proof -
      from failed w1 have "fs w1 FAVICON_SOURCE = None"
        by (simp add: FAVICON_SOURCE_def)
      from check_source_fetch_failed [OF this] failed obtain c w' where
        halt: "check_source env w1 = Inl (c, w')" and
        status: "c \<noteq> 0" and
        frame: "\<forall>p. p \<noteq> FAVICON_SOURCE \<longrightarrow> fs w' p = fs w1 p"
        by blast
      from halt have mb: "main_block env w1 = (c, w')"
        by (simp add: main_block_def)
      from frame w1 status show ?thesis
        by (simp add: run mb fst_finalize FAVICON_SOURCE_def)
    qed
    from dir order halt
    show "fs (snd (script env w)) ''dist'' = Some Dir \<and>
        (\<exists>cs. calls (snd (script env w)) =
                calls w @ CallMakedirs ''dist'' # CallExists FAVICON_SOURCE # cs) \<and>
        (fs w FAVICON_SOURCE = None \<and> fetch_reported_failed (curl env curl_argv) \<longrightarrow>
           fst (script env w) \<noteq> 0 \<and>
           fs (snd (script env w)) ''dist/icon16.png'' = fs w ''dist/icon16.png'' \<and>
           fs (snd (script env w)) ''dist/icon48.png'' = fs w ''dist/icon48.png'' \<and>
           fs (snd (script env w)) ''dist/icon128.png'' = fs w ''dist/icon128.png'')"
      by blast
  qed
next
  show "\<forall>e. import_error env = None \<and>
        os_makedirs env ''dist'' (log (CallMakedirs ''dist'') w) = Inl e \<longrightarrow>
        fst (script env w) = uncaught env \<and>
        fst (script env w) \<noteq> 0 \<and>
        fs (snd (script env w)) = fs w \<and>
        stdout (snd (script env w)) = stdout w \<and>
        calls (snd (script env w)) = calls w @ [CallMakedirs ''dist'']"
    by (simp add: script_not_entered log_def)
next
  show "(\<exists>e. os_makedirs env ''dist'' (log (CallMakedirs ''dist'') w) = Inl e) =
        ((\<exists>b. fs w ''dist'' = Some (File b)) \<or>
         (fs w ''dist'' = None \<and> mkdir_error env ''dist'' \<noteq> None))"
    by (simp add: os_makedirs_raises log_def)
qed

text \<open>
  C9, two runs: one offline with nothing on disk, where \<^verbatim>\<open>dist\<close> is made and the run halts at
  the fetch, and one with a regular file named \<^verbatim>\<open>dist\<close>.
\<close>

theorem dist_directory_after_run_witness:
  "import_error offline_env = None \<and>
   (\<exists>w1. os_makedirs offline_env ''dist'' (log (CallMakedirs ''dist'') empty_world) = Inr w1) \<and>
   fs empty_world FAVICON_SOURCE = None \<and>
   fetch_reported_failed (curl offline_env curl_argv) \<and>
   fs (snd (script offline_env empty_world)) ''dist'' = Some Dir \<and>
   fst (script offline_env empty_world) \<noteq> 0 \<and>
   (\<exists>e. os_makedirs demo_env ''dist'' (log (CallMakedirs ''dist'') dist_file_world) = Inl e) \<and>
   fs (snd (script demo_env dist_file_world)) = fs dist_file_world"
proof -
  have imported: "import_error offline_env = None" "import_error demo_env = None"
    by (simp_all add: demo_defs)
  have returns:
    "\<exists>w1. os_makedirs offline_env ''dist'' (log (CallMakedirs ''dist'') empty_world) = Inr w1"
    by (simp add: os_makedirs_def log_def demo_defs)
  have raises:
    "\<exists>e. os_makedirs demo_env ''dist'' (log (CallMakedirs ''dist'') dist_file_world) = Inl e"
    by (simp add: os_makedirs_def log_def demo_defs)
  have absent: "fs empty_world FAVICON_SOURCE = None"
    by (simp add: demo_defs)
  have failed: "fetch_reported_failed (curl offline_env curl_argv)"
    by (simp add: fetch_reported_failed_def demo_defs)
  from imported returns raises absent failed
    dist_directory_after_run [of offline_env empty_world]
    dist_directory_after_run [of demo_env dist_file_world]
  show ?thesis by blast
qed

text \<open>
  C9 as stated (the directory exists after every run) fails in three ways. Where a regular
  file is named \<^verbatim>\<open>dist\<close>, line 11 raises \<^verbatim>\<open>FileExistsError\<close>: the run ends with status 1 and
  \<^verbatim>\<open>dist\<close> is still that file. Where no directory can be made, line 11 raises as well, and
  nothing is named \<^verbatim>\<open>dist\<close> after the run. Where the image library is not installed, line 7
  raises: line 11 is never reached, and nothing is named \<^verbatim>\<open>dist\<close> after the run.
\<close>

theorem dist_not_directory_counterexample:
  "fst (script demo_env dist_file_world) = 1 \<and>
   fs (snd (script demo_env dist_file_world)) ''dist'' = Some (File []) \<and>
   fs (snd (script demo_env dist_file_world)) ''dist'' \<noteq> Some Dir \<and>
   fst (script readonly_env empty_world) = 1 \<and>
   fs (snd (script readonly_env empty_world)) ''dist'' = None \<and>
   fst (script no_pillow_env empty_world) = 1 \<and>
   fs (snd (script no_pillow_env empty_world)) ''dist'' = None \<and>
   calls (snd (script no_pillow_env empty_world)) = []"
  by (simp add: model_defs demo_defs)

subsection \<open>C10: what a call of \<^verbatim>\<open>create_icon_from_favicon\<close> returns\<close>

text \<open>
  C10, amended. A call returns \<^verbatim>\<open>True\<close> exactly when open, resize and save succeed and line
  26 is printed. It returns \<^verbatim>\<open>False\<close> exactly when a statement of the \<^verbatim>\<open>try\<close> raised and line 29
  was printed. An exception leaves the call exactly when a statement of the \<^verbatim>\<open>try\<close> raised
  and the print of line 29 raised; it is the exception of that print. So a call returns a
  boolean whenever line 29 can be printed.
\<close>

theorem create_icon_from_favicon_outcomes:
  "((fst (create_icon_from_favicon env size' filename w) = Inr True) =
      (\<exists>img img_resized out.
         Image_open env w FAVICON_SOURCE = Inr img \<and>
         pil_resize env img (size', size') LANCZOS = Inr img_resized \<and>
         pil_save env img_resized filename ''PNG'' = Inr out \<and>
         print_error env (MsgCreated filename size') = None))
   \<and> ((fst (create_icon_from_favicon env size' filename w) = Inr False) =
      (\<exists>e w1. create_icon_try env size' filename w = Inl (e, w1) \<and>
              print_error env (MsgFailed filename e) = None))
   \<and> (\<forall>e'. (fst (create_icon_from_favicon env size' filename w) = Inl e') =
      (\<exists>e w1. create_icon_try env size' filename w = Inl (e, w1) \<and>
              print_error env (MsgFailed filename e) = Some e'))
   \<and> ((\<forall>e. print_error env (MsgFailed filename e) = None) \<longrightarrow>
        (\<exists>b. fst (create_icon_from_favicon env size' filename w) = Inr b))"
proof (intro conjI allI impI)
  show "(fst (create_icon_from_favicon env size' filename w) = Inr True) =
      (\<exists>img img_resized out.
         Image_open env w FAVICON_SOURCE = Inr img \<and>
         pil_resize env img (size', size') LANCZOS = Inr img_resized \<and>
         pil_save env img_resized filename ''PNG'' = Inr out \<and>
         print_error env (MsgCreated filename size') = None)"
    by (simp only: create_icon_cases(1) create_icon_try_succeeds)
next
  show "(fst (create_icon_from_favicon env size' filename w) = Inr False) =
      (\<exists>e w1. create_icon_try env size' filename w = Inl (e, w1) \<and>
              print_error env (MsgFailed filename e) = None)"
    by (rule create_icon_cases(2))
next
  fix e'
  show "(fst (create_icon_from_favicon env size' filename w) = Inl e') =
      (\<exists>e w1. create_icon_try env size' filename w = Inl (e, w1) \<and>
              print_error env (MsgFailed filename e) = Some e')"
    by (rule create_icon_cases(3))
next
  assume printable: "\<forall>e. print_error env (MsgFailed filename e) = None"
  show "\<exists>b. fst (create_icon_from_favicon env size' filename w) = Inr b"
  proof (cases "fst (create_icon_from_favicon env size' filename w)")
    case (Inl e')
    with create_icon_cases(3) [of env size' filename w e'] printable show ?thesis
      by auto
  next
    case (Inr b)
    then show ?thesis by simp
  qed
qed

text \<open>
  C10, two calls where the lines can be printed: one on a corrupt source, one on a valid
  source.
\<close>

theorem create_icon_from_favicon_outcomes_witness:
  "(\<forall>e. print_error demo_env (MsgFailed ''dist/icon16.png'' e) = None) \<and>
   fst (create_icon_from_favicon demo_env 16 ''dist/icon16.png'' corrupt_world) = Inr False \<and>
   fst (create_icon_from_favicon demo_env 16 ''dist/icon16.png'' ready_world) = Inr True \<and>
   (\<exists>b. fst (create_icon_from_favicon demo_env 16 ''dist/icon16.png'' corrupt_world) = Inr b)"
proof -
  have printable: "\<forall>e. print_error demo_env (MsgFailed ''dist/icon16.png'' e) = None"
    by (simp add: demo_defs)
  have "fst (create_icon_from_favicon demo_env 16 ''dist/icon16.png'' corrupt_world) = Inr False"
    by (simp add: model_defs demo_defs)
  moreover have
    "fst (create_icon_from_favicon demo_env 16 ''dist/icon16.png'' ready_world) = Inr True"
    by (simp add: model_defs demo_defs)
  ultimately show ?thesis
    using printable
      create_icon_from_favicon_outcomes [of demo_env 16 "''dist/icon16.png''" corrupt_world]
    by blast
qed

text \<open>
  C10 as stated (no exception leaves the function; it returns \<^verbatim>\<open>True\<close> exactly when open,
  resize and save succeed) fails where standard output cannot encode the marks. Open,
  resize and save succeed, the print of line 26 raises inside the \<^verbatim>\<open>try\<close>, the print of line 29
  raises in the handler, and \<^verbatim>\<open>UnicodeEncodeError\<close> leaves the call.
\<close>

theorem create_icon_from_favicon_counterexample:
  "Image_open ascii_env ready_world FAVICON_SOURCE = Inr [137, 8, 9] \<and>
   pil_resize ascii_env [137, 8, 9] (16, 16) LANCZOS = Inr [137, 8, 9] \<and>
   pil_save ascii_env [137, 8, 9] ''dist/icon16.png'' ''PNG'' = Inr [137, 80, 137, 8, 9] \<and>
   fst (create_icon_from_favicon ascii_env 16 ''dist/icon16.png'' ready_world) =
     Inl UnicodeEncodeError"
  by (simp add: model_defs demo_defs)

end
